theory Spec2Isabelle
  imports Complex_Main "HOL-Library.Multiset"
begin

section \<open>Beam drift plotter for EBPG logfiles (drift\_gui.py)\<close>

text \<open>
  The script reads a logfile, checks its first line, scans every line with four regular
  expressions, reconstructs the timestamps of the drift samples, normalises the calibration
  positions to the wafer centre and hands the data to two plots.  The embedding follows
  the script top to bottom.  A run is a function from the text of the file to the list of
  outputs (console lines and plot calls) and the way the process ends.

  Conventions of the embedding.
  \<^item> Text is a \<open>string\<close>: the characters of the file as \<open>read()\<close> returns them, with
    code points below 256.
  \<^item> The functions of the Python library the script calls (\<open>re\<close>, \<open>float\<close>, \<open>int\<close>,
    \<open>datetime.strptime\<close>, \<open>sorted\<close>, \<open>min\<close>, \<open>max\<close>) are written out as far as
    the script reaches them.
  \<^item> A Python float is an IEEE double: a rational that a double holds, an infinity or NaN.
    The sign of a zero is not kept.
  \<^item> Month names are those of the English locale.
\<close>

subsection \<open>Text primitives\<close>

definition is_digit :: "char \<Rightarrow> bool" where
  "is_digit c = (c \<in> set ''0123456789'')"

definition is_upper :: "char \<Rightarrow> bool" where
  "is_upper c = (c \<in> set ''ABCDEFGHIJKLMNOPQRSTUVWXYZ'')"

definition is_lower :: "char \<Rightarrow> bool" where
  "is_lower c = (c \<in> set ''abcdefghijklmnopqrstuvwxyz'')"

definition is_alpha :: "char \<Rightarrow> bool" where
  "is_alpha c = (is_upper c \<or> is_lower c)"

text \<open>\<open>str.isspace\<close> and the class \<open>\s\<close> on code points below 256.\<close>

definition is_space :: "char \<Rightarrow> bool" where
  "is_space c = (c \<in> set [CHR 0x09, CHR 0x0A, CHR 0x0B, CHR 0x0C, CHR 0x0D, CHR 0x1C,
                            CHR 0x1D, CHR 0x1E, CHR 0x1F, CHR 0x20, CHR 0x85, CHR 0xA0])"

text \<open>The line boundaries of \<open>str.splitlines\<close> on code points below 256.\<close>

definition is_linebreak :: "char \<Rightarrow> bool" where
  "is_linebreak c = (c \<in> set [CHR 0x0A, CHR 0x0B, CHR 0x0C, CHR 0x0D, CHR 0x1C, CHR 0x1D,
                                CHR 0x1E, CHR 0x85])"

text \<open>
  \<open>path.splitlines()\<close>: the text is cut at every line boundary, \<open>\r\n\<close> counts as one
  boundary, and a boundary at the very end opens no further line.
\<close>

fun splitlines_acc :: "string \<Rightarrow> string \<Rightarrow> string list" where
  "splitlines_acc acc [] = (if acc = [] then [] else [rev acc])"
| "splitlines_acc acc (c # cs) =
     (if c = CHR 0x0D then
        (case cs of
           d # ds \<Rightarrow> if d = CHR 0x0A then rev acc # splitlines_acc [] ds
                    else rev acc # splitlines_acc [] cs
         | [] \<Rightarrow> [rev acc])
      else if is_linebreak c then rev acc # splitlines_acc [] cs
      else splitlines_acc (c # acc) cs)"

definition splitlines :: "string \<Rightarrow> string list" where
  "splitlines s = splitlines_acc [] s"

text \<open>\<open>file.readline()\<close> on a freshly opened file: the text up to and with the first newline.\<close>

fun readline :: "string \<Rightarrow> string" where
  "readline [] = []"
| "readline (c # cs) = (if c = CHR 0x0A then [c] else c # readline cs)"

definition strip :: "string \<Rightarrow> string" where
  "strip s = rev (dropWhile is_space (rev (dropWhile is_space s)))"

text \<open>\<open>needle in hay\<close> on strings.\<close>

fun contains :: "string \<Rightarrow> string \<Rightarrow> bool" where
  "contains needle [] = (needle = [])"
| "contains needle (c # cs) = (take (length needle) (c # cs) = needle \<or> contains needle cs)"

subsection \<open>Regular expressions\<close>

text \<open>
  The four patterns of the script quantify single characters and character classes only,
  so a pattern is a list of tokens: a class with its repetition bounds, or a bracket of a
  capturing group.  \<open>rx_match\<close> is the backtracking matcher of \<open>re\<close>.  A repetition is
  greedy: where it may take the next character it does so first, and it gives the character
  back when the rest of the pattern then fails.  The open group is collected backwards; the
  result is the list of the groups' texts.
\<close>

datatype tok = Rep "char \<Rightarrow> bool" nat "nat option" | Open | Close

fun rx_match :: "tok list \<Rightarrow> string \<Rightarrow> string list \<times> string option \<Rightarrow> string list option" where
  "rx_match [] s (done, cur) = Some (rev done)"
| "rx_match (Open # ts) s (done, cur) = rx_match ts s (done, Some [])"
| "rx_match (Close # ts) s (done, cur) =
     rx_match ts s ((case cur of Some g \<Rightarrow> rev g | None \<Rightarrow> []) # done, None)"
| "rx_match (Rep p lo hi # ts) [] (done, cur) =
     (if lo = 0 then rx_match ts [] (done, cur) else None)"
| "rx_match (Rep p lo hi # ts) (c # s) (done, cur) =
     (if p c \<and> hi \<noteq> Some 0 then
        (case rx_match (Rep p (lo - 1) (map_option (\<lambda>h. h - 1) hi) # ts) s
                (done, map_option (\<lambda>g. c # g) cur) of
           Some r \<Rightarrow> Some r
         | None \<Rightarrow> if lo = 0 then rx_match ts (c # s) (done, cur) else None)
      else if lo = 0 then rx_match ts (c # s) (done, cur) else None)"

text \<open>\<open>regex.match(line)\<close>: the pattern at the start of the line.\<close>

definition re_match :: "tok list \<Rightarrow> string \<Rightarrow> string list option" where
  "re_match ts s = rx_match ts s ([], None)"

text \<open>\<open>regex.search(line)\<close>: the pattern at the leftmost position where it matches.\<close>

fun re_search :: "tok list \<Rightarrow> string \<Rightarrow> string list option" where
  "re_search ts [] = re_match ts []"
| "re_search ts (c # s) =
     (case re_match ts (c # s) of Some g \<Rightarrow> Some g | None \<Rightarrow> re_search ts s)"

definition lit :: "string \<Rightarrow> tok list" where
  "lit s = map (\<lambda>c. Rep (\<lambda>x. x = c) 1 (Some 1)) s"

definition grp :: "tok list \<Rightarrow> tok list" where
  "grp ts = Open # ts @ [Close]"

definition rx_one :: "(char \<Rightarrow> bool) \<Rightarrow> tok" where
  "rx_one p = Rep p 1 (Some 1)"

definition rx_opt :: "(char \<Rightarrow> bool) \<Rightarrow> tok" where
  "rx_opt p = Rep p 0 (Some 1)"

definition rx_star :: "(char \<Rightarrow> bool) \<Rightarrow> tok" where
  "rx_star p = Rep p 0 None"

definition rx_plus :: "(char \<Rightarrow> bool) \<Rightarrow> tok" where
  "rx_plus p = Rep p 1 None"

definition any_char :: "char \<Rightarrow> bool" where
  "any_char c = (c \<noteq> CHR 0x0A)"

definition is_chr :: "char \<Rightarrow> char \<Rightarrow> bool" where
  "is_chr a c = (c = a)"

text \<open>The class \<open>[0-9.-]\<close>.\<close>

definition centre_char :: "char \<Rightarrow> bool" where
  "centre_char c = (is_digit c \<or> c = CHR ''.'' \<or> c = CHR ''-'')"

text \<open>The class \<open>[-+]\<close>.\<close>

definition sign_char :: "char \<Rightarrow> bool" where
  "sign_char c = (c = CHR ''-'' \<or> c = CHR ''+'')"

text \<open>\<open>--centre=([0-9.-]+),([0-9.-]+).*--size=([0-9.-]+),([0-9.-]+)\<close>\<close>

definition wafer_centre_position :: "tok list" where
  "wafer_centre_position =
     lit ''--centre='' @ grp [rx_plus centre_char] @ lit '','' @ grp [rx_plus centre_char]
     @ [rx_star any_char]
     @ lit ''--size='' @ grp [rx_plus centre_char] @ lit '','' @ grp [rx_plus centre_char]"

text \<open>
  \<open>([A-Za-z]{3})\s([A-Za-z]{3})\s(\d{1,2})\s(\d{2}:\d{2}:\d{2})\s([A-Z]{3,4})\s(\d{4})\<close>
\<close>

definition date_pattern :: "tok list" where
  "date_pattern =
     grp [Rep is_alpha 3 (Some 3)] @ [rx_one is_space]
     @ grp [Rep is_alpha 3 (Some 3)] @ [rx_one is_space]
     @ grp [Rep is_digit 1 (Some 2)] @ [rx_one is_space]
     @ grp ([Rep is_digit 2 (Some 2)] @ lit '':'' @ [Rep is_digit 2 (Some 2)] @ lit '':''
            @ [Rep is_digit 2 (Some 2)])
     @ [rx_one is_space]
     @ grp [Rep is_upper 3 (Some 4)] @ [rx_one is_space]
     @ grp [Rep is_digit 4 (Some 4)]"

text \<open>The number \<open>-?\d+\.?\d*\<close> of the drift pattern.\<close>

definition drift_number :: "tok list" where
  "drift_number = [rx_opt (is_chr CHR ''-''), rx_plus is_digit, rx_opt (is_chr CHR ''.''), rx_star is_digit]"

text \<open>
  \<open>cal drift (\d+):(\d+)\s*;\s*(-?\d+\.?\d*)_nm,(-?\d+\.?\d*)_nm\s+(-?\d+\.?\d*)_nm/min,(-?\d+\.?\d*)_nm/min\<close>
\<close>

definition drift_pattern :: "tok list" where
  "drift_pattern =
     lit ''cal drift '' @ grp [rx_plus is_digit] @ lit '':'' @ grp [rx_plus is_digit]
     @ [rx_star is_space] @ lit '';'' @ [rx_star is_space]
     @ grp drift_number @ lit ''_nm,'' @ grp drift_number @ lit ''_nm''
     @ [rx_plus is_space]
     @ grp drift_number @ lit ''_nm/min,'' @ grp drift_number @ lit ''_nm/min''"

text \<open>The number \<open>[-+]?[0-9]*\.?[0-9]+\<close> of the position pattern.\<close>

definition coord_number :: "tok list" where
  "coord_number = [rx_opt sign_char, rx_star is_digit, rx_opt (is_chr CHR ''.''), rx_plus is_digit]"

text \<open>
  \<open>block:\s(\d+)\s+Abs\scoord:\s([-+]?[0-9]*\.?[0-9]+)_mm,([-+]?[0-9]*\.?[0-9]+)_mm\<close>
\<close>

definition drift_position :: "tok list" where
  "drift_position =
     lit ''block:'' @ [rx_one is_space] @ grp [rx_plus is_digit] @ [rx_plus is_space]
     @ lit ''Abs'' @ [rx_one is_space] @ lit ''coord:'' @ [rx_one is_space]
     @ grp coord_number @ lit ''_mm,'' @ grp coord_number @ lit ''_mm''"

subsection \<open>Floats\<close>

text \<open>
  A double is zero, or \<open>\<plusminus> m * 2 ^ q\<close> with \<open>m < 2 ^ 53\<close> and \<open>-1074 \<le> q\<close>, below
  \<open>2 ^ 1024\<close> in magnitude.  \<open>round_double\<close> is the rounding every operation ends with:
  to the nearest double, a tie to the even one, and to an infinity from
  \<open>2 ^ 1024 - 2 ^ 970\<close> on.
\<close>

datatype pyfloat = Fin rat | PInf | NInf | NaN

text \<open>The number of binary digits of a positive integer.\<close>

function bits :: "int \<Rightarrow> int" where
  "bits n = (if n \<le> 0 then 0 else 1 + bits (n div 2))"
  by pat_completeness auto
termination
  by (relation "measure nat") auto

declare bits.simps [simp del]

definition pow2 :: "int \<Rightarrow> rat" where
  "pow2 i = (if 0 \<le> i then 2 ^ nat i else 1 / 2 ^ nat (- i))"

text \<open>The exponent \<open>e\<close> with \<open>2 ^ e \<le> a < 2 ^ (e + 1)\<close>, for \<open>0 < a\<close>.\<close>

definition flog2 :: "rat \<Rightarrow> int" where
  "flog2 a = (if 1 \<le> a then bits \<lfloor>a\<rfloor> - 1 else - bits (\<lceil>1 / a\<rceil> - 1))"

text \<open>The integer next to \<open>z\<close>, the even one of the two where \<open>z\<close> lies half way.\<close>

definition nearest_even :: "int \<Rightarrow> rat \<Rightarrow> int" where
  "nearest_even f d =
     (if d < 1 / 2 then f else if 1 / 2 < d then f + 1 else if even f then f else f + 1)"

definition round_half_even :: "rat \<Rightarrow> int" where
  "round_half_even z = nearest_even \<lfloor>z\<rfloor> (z - of_int \<lfloor>z\<rfloor>)"

definition round_mag :: "rat \<Rightarrow> int \<Rightarrow> rat" where
  "round_mag a q = of_int (round_half_even (a / pow2 q)) * pow2 q"

definition pack :: "bool \<Rightarrow> rat \<Rightarrow> pyfloat" where
  "pack pos r = (if pow2 1024 \<le> r then (if pos then PInf else NInf)
                 else Fin (if pos then r else - r))"

definition round_double :: "rat \<Rightarrow> pyfloat" where
  "round_double x =
     (if x = 0 then Fin 0
      else pack (0 < x) (round_mag \<bar>x\<bar> (max (flog2 \<bar>x\<bar> - 52) (- 1074))))"

text \<open>
  \<open>float(s)\<close> on the text of a group.  The groups of the four patterns hold digits, dots
  and signs only; on such a text \<open>float\<close> accepts an optional sign and a decimal numeral
  with at least one digit and at most one dot, and raises ValueError (\<open>None\<close>) otherwise.
\<close>

definition digit_val :: "char \<Rightarrow> int" where
  "digit_val c = of_char c - 48"

text \<open>\<open>int(s)\<close> on a text of decimal digits.\<close>

definition int_of_digits :: "string \<Rightarrow> int" where
  "int_of_digits ds = foldl (\<lambda>n c. 10 * n + digit_val c) 0 ds"

definition float_digits :: "string \<Rightarrow> string \<Rightarrow> pyfloat option" where
  "float_digits ip fp =
     (if \<not> list_all is_digit fp \<or> (ip = [] \<and> fp = []) then None
      else Some (round_double (of_int (int_of_digits (ip @ fp)) / 10 ^ length fp)))"

definition float_parts :: "string \<Rightarrow> string \<Rightarrow> pyfloat option" where
  "float_parts ip rest = float_digits ip (if take 1 rest = ''.'' then drop 1 rest else rest)"

definition float_unsigned :: "string \<Rightarrow> pyfloat option" where
  "float_unsigned body = float_parts (takeWhile is_digit body) (dropWhile is_digit body)"

fun fneg :: "pyfloat \<Rightarrow> pyfloat" where
  "fneg (Fin a) = Fin (- a)"
| "fneg PInf = NInf"
| "fneg NInf = PInf"
| "fneg NaN = NaN"

definition float_py :: "string \<Rightarrow> pyfloat option" where
  "float_py s =
     (if take 1 s = ''-'' then map_option fneg (float_unsigned (drop 1 s))
      else if take 1 s = ''+'' then float_unsigned (drop 1 s)
      else float_unsigned s)"

text \<open>\<open>x / d\<close> for a double \<open>x\<close> and a positive constant \<open>d\<close> (the script has 1000 and 2).\<close>

fun fdiv :: "pyfloat \<Rightarrow> rat \<Rightarrow> pyfloat" where
  "fdiv (Fin a) d = round_double (a / d)"
| "fdiv x d = x"

fun fsub :: "pyfloat \<Rightarrow> pyfloat \<Rightarrow> pyfloat" where
  "fsub (Fin a) (Fin b) = round_double (a - b)"
| "fsub NaN y = NaN"
| "fsub x NaN = NaN"
| "fsub (Fin a) PInf = NInf"
| "fsub (Fin a) NInf = PInf"
| "fsub PInf PInf = NaN"
| "fsub PInf y = PInf"
| "fsub NInf NInf = NaN"
| "fsub NInf y = NInf"

fun fabs :: "pyfloat \<Rightarrow> pyfloat" where
  "fabs (Fin a) = Fin \<bar>a\<bar>"
| "fabs PInf = PInf"
| "fabs NInf = PInf"
| "fabs NaN = NaN"

text \<open>\<open>x < y\<close> and \<open>x == y\<close> on floats: every comparison with NaN is false.\<close>

fun flt :: "pyfloat \<Rightarrow> pyfloat \<Rightarrow> bool" where
  "flt NaN y = False"
| "flt x NaN = False"
| "flt (Fin a) (Fin b) = (a < b)"
| "flt x NInf = False"
| "flt NInf y = True"
| "flt PInf y = False"
| "flt (Fin a) PInf = True"

fun feq :: "pyfloat \<Rightarrow> pyfloat \<Rightarrow> bool" where
  "feq NaN y = False"
| "feq x NaN = False"
| "feq x y = (x = y)"

subsection \<open>Dates and times\<close>

text \<open>
  A \<open>datetime\<close> of the script has seconds 0 throughout.  It is kept as the ordinal of its
  day (day 1 is 0001-01-01, as \<open>toordinal\<close> counts) and the minute of that day, so that
  \<open><\<close> is the order on these pairs and a \<open>timedelta\<close> of a day adds 1 to the ordinal.
\<close>

record datetime =
  ordinal :: int
  minute_of_day :: int

definition dt_less :: "datetime \<Rightarrow> datetime \<Rightarrow> bool" where
  "dt_less a b = (ordinal a < ordinal b \<or> (ordinal a = ordinal b \<and> minute_of_day a < minute_of_day b))"

definition dt_le :: "datetime \<Rightarrow> datetime \<Rightarrow> bool" where
  "dt_le a b = (\<not> dt_less b a)"

text \<open>\<open>(b - a).total_seconds() / 60\<close>.\<close>

definition minutes_between :: "datetime \<Rightarrow> datetime \<Rightarrow> int" where
  "minutes_between a b = (ordinal b - ordinal a) * 1440 + (minute_of_day b - minute_of_day a)"

definition is_leap :: "int \<Rightarrow> bool" where
  "is_leap y = (y mod 4 = 0 \<and> (y mod 100 \<noteq> 0 \<or> y mod 400 = 0))"

definition days_in_month :: "int \<Rightarrow> nat \<Rightarrow> int" where
  "days_in_month y m =
     (if m = 2 \<and> is_leap y then 29 else [31, 28, 31, 30, 31, 30, 31, 31, 30, 31, 30, 31] ! (m - 1))"

definition days_before_year :: "int \<Rightarrow> int" where
  "days_before_year y = (y - 1) * 365 + (y - 1) div 4 - (y - 1) div 100 + (y - 1) div 400"

definition days_before_month :: "int \<Rightarrow> nat \<Rightarrow> int" where
  "days_before_month y m =
     [0, 31, 59, 90, 120, 151, 181, 212, 243, 273, 304, 334] ! (m - 1)
     + (if 2 < m \<and> is_leap y then 1 else 0)"

definition ymd2ord :: "int \<Rightarrow> nat \<Rightarrow> int \<Rightarrow> int" where
  "ymd2ord y m d = days_before_year y + days_before_month y m + d"

definition to_lower :: "char \<Rightarrow> char" where
  "to_lower c =
     (case map_of (zip ''ABCDEFGHIJKLMNOPQRSTUVWXYZ'' ''abcdefghijklmnopqrstuvwxyz'') c of
        Some l \<Rightarrow> l
      | None \<Rightarrow> c)"

definition month_names :: "string list" where
  "month_names = [''jan'', ''feb'', ''mar'', ''apr'', ''may'', ''jun'',
                  ''jul'', ''aug'', ''sep'', ''oct'', ''nov'', ''dec'']"

text \<open>\<open>%b\<close>: the number of the month whose abbreviated name the text is, in any case.\<close>

fun index_of :: "'a \<Rightarrow> 'a list \<Rightarrow> nat option" where
  "index_of x [] = None"
| "index_of x (y # ys) = (if x = y then Some 0 else map_option Suc (index_of x ys))"

definition month_of :: "string \<Rightarrow> nat option" where
  "month_of s = map_option Suc (index_of (map to_lower s) month_names)"

text \<open>
  A field of one or two digits (\<open>%d\<close>, \<open>%H\<close>, \<open>%M\<close>) and its value; \<open>%Y\<close> takes four.
\<close>

definition num_field :: "nat \<Rightarrow> nat \<Rightarrow> string \<Rightarrow> int option" where
  "num_field lo hi s =
     (if lo \<le> length s \<and> length s \<le> hi \<and> list_all is_digit s
      then Some (int_of_digits s) else None)"

text \<open>
  \<open>datetime.strptime(f'{dyear}-{dmonth}-{dday} {hour}:{minute}:00', '%Y-%b-%d %H:%M:%S')\<close>;
  \<open>None\<close> is its ValueError.  The year is 1 to 9999, the day 1 to the length of the
  month, the hour at most 23 and the minute at most 59.
\<close>

definition strptime :: "string \<Rightarrow> string \<Rightarrow> string \<Rightarrow> string \<Rightarrow> string \<Rightarrow> datetime option" where
  "strptime dyear dmonth dday hour minute =
     (case (num_field 4 4 dyear, month_of dmonth, num_field 1 2 dday,
            num_field 1 2 hour, num_field 1 2 minute) of
        (Some y, Some m, Some d, Some h, Some mi) \<Rightarrow>
          if 1 \<le> y \<and> 1 \<le> d \<and> d \<le> days_in_month y m \<and> h \<le> 23 \<and> mi \<le> 59
          then Some \<lparr>ordinal = ymd2ord y m d, minute_of_day = h * 60 + mi\<rparr>
          else None
      | _ \<Rightarrow> None)"

text \<open>The largest day a \<open>datetime\<close> holds: 9999-12-31.\<close>

definition max_ordinal :: int where
  "max_ordinal = 3652059"

datatype error = ValueError | NameError | IndexError | OverflowError

text \<open>\<open>timestamp + timedelta(days=1)\<close>.\<close>

definition add_day :: "datetime \<Rightarrow> error + datetime" where
  "add_day t = (if ordinal t + 1 > max_ordinal then Inl OverflowError
                else Inr (t\<lparr>ordinal := ordinal t + 1\<rparr>))"

subsection \<open>What the program puts out\<close>

text \<open>
  The console lines and the calls of the plotting library, in the order of the run.
  \<open>Plt_xlim\<close> and \<open>Plt_ylim\<close> are the calls of \<open>xlim\<close> and \<open>ylim\<close> that return,
  each with the limits it sets, \<open>Plt_show_positions\<close> stands for
  the calls from the scatter of the wafer centre to \<open>show()\<close> of the first figure, and
  \<open>Plt_show_drift\<close> for those from the text box to \<open>show()\<close> of the second.
\<close>

datatype event =
    Print_invalid_logfile
  | Print_centre pyfloat pyfloat
  | Print_size pyfloat pyfloat
  | Print_no_drift_points
  | Print_relative_header
  | Print_relative pyfloat pyfloat
  | Plt_figure
  | Plt_xlim "pyfloat \<times> pyfloat"
  | Plt_ylim "pyfloat \<times> pyfloat"
  | Plt_scatter pyfloat pyfloat
  | Plt_show_positions
  | Plt_plot "pyfloat list" "pyfloat list"
  | Print_summary pyfloat pyfloat pyfloat pyfloat
  | Plt_show_drift "(string \<times> string) option"

fun is_plot_call :: "event \<Rightarrow> bool" where
  "is_plot_call Plt_figure = True"
| "is_plot_call (Plt_xlim xl) = True"
| "is_plot_call (Plt_ylim yl) = True"
| "is_plot_call (Plt_scatter x y) = True"
| "is_plot_call Plt_show_positions = True"
| "is_plot_call (Plt_plot ts vs) = True"
| "is_plot_call (Plt_show_drift l) = True"
| "is_plot_call e = False"

text \<open>
  How the process ends: \<open>sys.exit()\<close> after a diagnostic, an uncaught exception, or the end
  of the script.  \<open>Unmodelled\<close> marks a run that sorts keys holding NaN, where the result
  of \<open>sorted\<close> depends on the order of its comparisons; the embedding does not follow it.
\<close>

datatype ending = Exited | Raised error | Completed | Unmodelled

subsection \<open>The scan of the lines\<close>

type_synonym block = "int \<times> pyfloat \<times> pyfloat"

record scan_state =
  wafer_centre :: "pyfloat list"
  size_xy :: "(pyfloat \<times> pyfloat) option"
  date_fields :: "(string \<times> string \<times> string) option"
  run_label :: "(string \<times> string) option"
  previous_timestamp :: "datetime option"
  drift_data_found :: bool
  timestamps :: "datetime list"
  dxdt_values :: "pyfloat list"
  dydt_values :: "pyfloat list"
  drift_pos_data :: "block list"
  printed :: "event list"

text \<open>
  The variables before the loop.  \<open>size_x\<close>, \<open>size_y\<close> and \<open>dyear\<close>, \<open>dmonth\<close>,
  \<open>dday\<close> are not bound before their first match (\<open>None\<close>); \<open>run_label\<close> holds
  \<open>run_date\<close> and \<open>run_start_time\<close>.
\<close>

definition initial_state :: scan_state where
  "initial_state =
     \<lparr>wafer_centre = [], size_xy = None, date_fields = None, run_label = None,
      previous_timestamp = None, drift_data_found = False, timestamps = [],
      dxdt_values = [], dydt_values = [], drift_pos_data = [], printed = []\<rparr>"

text \<open>The groups of a match of each pattern on a line.\<close>

definition centre_groups :: "string \<Rightarrow> (string \<times> string \<times> string \<times> string) option" where
  "centre_groups line =
     (case re_search wafer_centre_position line of
        Some [g1, g2, g3, g4] \<Rightarrow> Some (g1, g2, g3, g4)
      | _ \<Rightarrow> None)"

text \<open>Of the six groups of the date the scan keeps \<open>dyear\<close>, \<open>dmonth\<close>, \<open>dday\<close>, \<open>dtime\<close>.\<close>

definition date_groups :: "string \<Rightarrow> (string \<times> string \<times> string \<times> string) option" where
  "date_groups line =
     (case re_match date_pattern line of
        Some [dweek, dmonth, dday, dtime, dtzone, dyear] \<Rightarrow> Some (dyear, dmonth, dday, dtime)
      | _ \<Rightarrow> None)"

text \<open>Of the six groups of a drift line the scan keeps \<open>hour\<close>, \<open>minute\<close>, \<open>dxdt\<close>, \<open>dydt\<close>.\<close>

definition drift_groups :: "string \<Rightarrow> (string \<times> string \<times> string \<times> string) option" where
  "drift_groups line =
     (case re_search drift_pattern line of
        Some [hour, minute, dx, dy, dxdt, dydt] \<Rightarrow> Some (hour, minute, dxdt, dydt)
      | _ \<Rightarrow> None)"

definition position_groups :: "string \<Rightarrow> (string \<times> string \<times> string) option" where
  "position_groups line =
     (case re_search drift_position line of
        Some [b, x, y] \<Rightarrow> Some (b, x, y)
      | _ \<Rightarrow> None)"

text \<open>
  \<open>int(s)\<close> on the digits of a block number; CPython from 3.11 on raises ValueError for
  more than 4300 digits.
\<close>

definition int_py :: "string \<Rightarrow> int option" where
  "int_py s = (if 4300 < length s then None else Some (int_of_digits s))"

text \<open>A failure carries the exception and what was printed before it.\<close>

type_synonym failure = "error \<times> event list"

definition then_do :: "failure + 'a \<Rightarrow> ('a \<Rightarrow> failure + 'b) \<Rightarrow> failure + 'b" where
  "then_do r f = (case r of Inl e \<Rightarrow> Inl e | Inr x \<Rightarrow> f x)"

text \<open>Lines 76 to 85: the wafer centre and size, in mm.\<close>

definition centre_floats ::
  "string \<times> string \<times> string \<times> string \<Rightarrow> (pyfloat \<times> pyfloat \<times> pyfloat \<times> pyfloat) option" where
  "centre_floats g =
     (case g of (g1, g2, g3, g4) \<Rightarrow>
        (case (float_py g1, float_py g2, float_py g3, float_py g4) of
           (Some cx, Some cy, Some sx, Some sy) \<Rightarrow>
             Some (fdiv cx 1000, fdiv cy 1000, fdiv sx 1000, fdiv sy 1000)
         | _ \<Rightarrow> None))"

definition scan_centre :: "string \<Rightarrow> scan_state \<Rightarrow> failure + scan_state" where
  "scan_centre line st =
     (case centre_groups line of
        None \<Rightarrow> Inr st
      | Some g \<Rightarrow>
          (case centre_floats g of
             None \<Rightarrow> Inl (ValueError, printed st)
           | Some (centre_x, centre_y, size_x, size_y) \<Rightarrow>
               Inr (st\<lparr>wafer_centre := [centre_x, centre_y],
                        size_xy := Some (size_x, size_y),
                        printed := printed st
                          @ [Print_centre centre_x centre_y, Print_size size_x size_y]\<rparr>)))"

text \<open>Lines 88 to 96: the date of the line.\<close>

definition scan_date :: "string \<Rightarrow> scan_state \<Rightarrow> failure + scan_state" where
  "scan_date line st =
     (case date_groups line of
        None \<Rightarrow> Inr st
      | Some (dyear, dmonth, dday, dtime) \<Rightarrow>
          Inr (st\<lparr>date_fields := Some (dyear, dmonth, dday),
                   run_label := (case run_label st of
                                   None \<Rightarrow> Some (dyear @ ''-'' @ dmonth @ ''-'' @ dday, dtime)
                                 | Some l \<Rightarrow> Some l)\<rparr>))"

text \<open>Lines 111 and 112: a timestamp before the previous one is moved on by a day.\<close>

definition day_rollover :: "datetime option \<Rightarrow> datetime \<Rightarrow> error + datetime" where
  "day_rollover previous timestamp =
     (case previous of
        None \<Rightarrow> Inr timestamp
      | Some p \<Rightarrow> if dt_less timestamp p then add_day timestamp else Inr timestamp)"

text \<open>
  Lines 99 to 124: a drift sample.  \<open>replace('_nm/min', '')\<close> leaves the text of a group as
  it is, since a group holds digits, a dot and a sign only.
\<close>

definition drift_sample ::
  "scan_state \<Rightarrow> string \<times> string \<times> string \<times> string \<Rightarrow> failure + scan_state" where
  "drift_sample st g =
     (case g of (hour, minute, dxdt, dydt) \<Rightarrow>
       (case date_fields st of
          None \<Rightarrow> Inl (NameError, printed st)
        | Some (dyear, dmonth, dday) \<Rightarrow>
           (case strptime dyear dmonth dday hour minute of
              None \<Rightarrow> Inl (ValueError, printed st)
            | Some candidate \<Rightarrow>
               (case day_rollover (previous_timestamp st) candidate of
                  Inl e \<Rightarrow> Inl (e, printed st)
                | Inr timestamp \<Rightarrow>
                   (case (float_py dxdt, float_py dydt) of
                      (Some dx, Some dy) \<Rightarrow>
                        Inr (st\<lparr>drift_data_found := True,
                                 previous_timestamp := Some timestamp,
                                 timestamps := timestamps st @ [timestamp],
                                 dxdt_values := dxdt_values st @ [dx],
                                 dydt_values := dydt_values st @ [dy]\<rparr>)
                    | _ \<Rightarrow> Inl (ValueError, printed st))))))"

definition scan_drift :: "string \<Rightarrow> scan_state \<Rightarrow> failure + scan_state" where
  "scan_drift line st =
     (case drift_groups line of None \<Rightarrow> Inr st | Some g \<Rightarrow> drift_sample st g)"

text \<open>Lines 127 to 133: a calibration block.\<close>

definition block_of :: "string \<times> string \<times> string \<Rightarrow> block option" where
  "block_of g =
     (case g of (b, x, y) \<Rightarrow>
        (case (int_py b, float_py x, float_py y) of
           (Some block_number, Some x_coord, Some y_coord) \<Rightarrow>
             Some (block_number, x_coord, y_coord)
         | _ \<Rightarrow> None))"

definition scan_position :: "string \<Rightarrow> scan_state \<Rightarrow> failure + scan_state" where
  "scan_position line st =
     (case position_groups line of
        None \<Rightarrow> Inr st
      | Some g \<Rightarrow>
          (case block_of g of
             None \<Rightarrow> Inl (ValueError, printed st)
           | Some blk \<Rightarrow> Inr (st\<lparr>drift_pos_data := drift_pos_data st @ [blk]\<rparr>)))"

text \<open>The body of the loop, and the loop.\<close>

definition scan_line :: "string \<Rightarrow> scan_state \<Rightarrow> failure + scan_state" where
  "scan_line line st =
     then_do (scan_centre line st) (\<lambda>s1.
     then_do (scan_date line s1) (\<lambda>s2.
     then_do (scan_drift line s2) (scan_position line)))"

fun scan_lines :: "string list \<Rightarrow> scan_state \<Rightarrow> failure + scan_state" where
  "scan_lines [] st = Inr st"
| "scan_lines (line # rest) st =
     (case scan_line line st of Inl e \<Rightarrow> Inl e | Inr st' \<Rightarrow> scan_lines rest st')"

subsection \<open>Sorting, and the smallest and largest magnitude\<close>

text \<open>
  \<open>a < b\<close> on the tuples \<open>(block_number, x, y)\<close>: the first component where the two
  differ decides.
\<close>

fun key_lt :: "block \<Rightarrow> block \<Rightarrow> bool" where
  "key_lt (n1, x1, y1) (n2, x2, y2) =
     (if n1 \<noteq> n2 then n1 < n2
      else if \<not> feq x1 x2 then flt x1 x2
      else if \<not> feq y1 y2 then flt y1 y2
      else False)"

fun has_nan :: "block \<Rightarrow> bool" where
  "has_nan (n, x, y) = (x = NaN \<or> y = NaN)"

text \<open>
  \<open>sorted(xs, key=lambda x: (x[0], x[1], x[2]))\<close>.  Without NaN the keys are linearly
  ordered and \<open>sorted\<close> returns the one stable ordering, which insertion from the right
  builds.
\<close>

fun insort_py :: "block \<Rightarrow> block list \<Rightarrow> block list" where
  "insort_py x [] = [x]"
| "insort_py x (y # ys) = (if key_lt y x then y # insort_py x ys else x # y # ys)"

definition sorted_py :: "block list \<Rightarrow> block list option" where
  "sorted_py xs = (if list_ex has_nan xs then None else Some (foldr insort_py xs []))"

text \<open>
  \<open>min(xs, key=abs)\<close> and \<open>max(xs, key=abs)\<close>: the first element is the best so far and
  a later one replaces it when its key is strictly smaller (larger); ValueError (\<open>None\<close>)
  on the empty list.
\<close>

fun min_abs_from :: "pyfloat \<Rightarrow> pyfloat list \<Rightarrow> pyfloat" where
  "min_abs_from best [] = best"
| "min_abs_from best (x # xs) = min_abs_from (if flt (fabs x) (fabs best) then x else best) xs"

fun max_abs_from :: "pyfloat \<Rightarrow> pyfloat list \<Rightarrow> pyfloat" where
  "max_abs_from best [] = best"
| "max_abs_from best (x # xs) = max_abs_from (if flt (fabs best) (fabs x) then x else best) xs"

definition min_abs :: "pyfloat list \<Rightarrow> pyfloat option" where
  "min_abs xs = (case xs of [] \<Rightarrow> None | x # rest \<Rightarrow> Some (min_abs_from x rest))"

definition max_abs :: "pyfloat list \<Rightarrow> pyfloat option" where
  "max_abs xs = (case xs of [] \<Rightarrow> None | x # rest \<Rightarrow> Some (max_abs_from x rest))"

subsection \<open>Normalising the positions and rendering\<close>

text \<open>
  Lines 146 to 152: the positions relative to the wafer centre.  \<open>wafer_centre[0]\<close> raises
  IndexError on the empty list.
\<close>

fun relative_drift_pos_data :: "pyfloat list \<Rightarrow> block list \<Rightarrow> error + block list" where
  "relative_drift_pos_data wc [] = Inr []"
| "relative_drift_pos_data wc ((block_number, x_coord, y_coord) # rest) =
     (case wc of
        c0 # c1 # _ \<Rightarrow>
          (case relative_drift_pos_data wc rest of
             Inl e \<Rightarrow> Inl e
           | Inr rs \<Rightarrow> Inr ((block_number, fsub x_coord c0, fsub y_coord c1) # rs))
      | _ \<Rightarrow> Inl IndexError)"

definition print_relative :: "block \<Rightarrow> event" where
  "print_relative b = (case b of (n, rel_x, rel_y) \<Rightarrow> Print_relative rel_x rel_y)"

definition scatter_relative :: "block \<Rightarrow> event" where
  "scatter_relative b = (case b of (n, rel_x, rel_y) \<Rightarrow> Plt_scatter rel_x rel_y)"

text \<open>\<open>(t - start_time).total_seconds() / 60\<close>, a whole number of minutes.\<close>

definition time_values :: "datetime \<Rightarrow> datetime list \<Rightarrow> pyfloat list" where
  "time_values start ts = map (\<lambda>t. Fin (of_int (minutes_between start t))) ts"

text \<open>Lines 189 to 215: the plot of the drift rates and the summary.\<close>

definition render_drift :: "scan_state \<Rightarrow> event list \<Rightarrow> event list \<times> ending" where
  "render_drift st out =
     (case timestamps st of
        [] \<Rightarrow> (out, Raised IndexError)
      | start_time # _ \<Rightarrow>
          (case (min_abs (dxdt_values st), max_abs (dxdt_values st),
                 min_abs (dydt_values st), max_abs (dydt_values st)) of
             (Some min_dx, Some max_dx, Some min_dy, Some max_dy) \<Rightarrow>
               (out @ [Plt_plot (time_values start_time (timestamps st)) (dxdt_values st),
                       Plt_plot (time_values start_time (timestamps st)) (dydt_values st),
                       Print_summary min_dx max_dx min_dy max_dy,
                       Plt_show_drift (run_label st)],
                Completed)
           | _ \<Rightarrow> (out, Raised ValueError)))"

text \<open>
  \<open>xlim\<close> and \<open>ylim\<close> raise ValueError for a limit that is infinite or NaN, before they
  set any limit.
\<close>

fun is_fin :: "pyfloat \<Rightarrow> bool" where
  "is_fin (Fin r) = True"
| "is_fin x = False"

definition finite_limits :: "pyfloat \<times> pyfloat \<Rightarrow> bool" where
  "finite_limits l = (is_fin (fst l) \<and> is_fin (snd l))"

text \<open>
  Lines 155 to 186: the listing and the plot of the relative positions.  \<open>size_x\<close> is read
  first at line 168, after \<open>plt.figure\<close>; line 168 calls \<open>xlim\<close> and line 169 \<open>ylim\<close>.
\<close>

definition render_positions :: "scan_state \<Rightarrow> block list \<Rightarrow> event list \<times> ending" where
  "render_positions st sorted_relative =
     (case size_xy st of
        None \<Rightarrow>
          (printed st @ [Print_relative_header] @ map print_relative sorted_relative
             @ [Plt_figure],
           Raised NameError)
      | Some (size_x, size_y) \<Rightarrow>
          if \<not> finite_limits (fdiv (fneg size_x) 2, fdiv size_x 2) then
            (printed st @ [Print_relative_header] @ map print_relative sorted_relative
               @ [Plt_figure],
             Raised ValueError)
          else if \<not> finite_limits (fdiv (fneg size_y) 2, fdiv size_y 2) then
            (printed st @ [Print_relative_header] @ map print_relative sorted_relative
               @ [Plt_figure, Plt_xlim (fdiv (fneg size_x) 2, fdiv size_x 2)],
             Raised ValueError)
          else
            render_drift st
              (printed st @ [Print_relative_header] @ map print_relative sorted_relative
                 @ [Plt_figure,
                    Plt_xlim (fdiv (fneg size_x) 2, fdiv size_x 2),
                    Plt_ylim (fdiv (fneg size_y) 2, fdiv size_y 2)]
                 @ map scatter_relative sorted_relative
                 @ [Plt_show_positions]))"

text \<open>Lines 141 to 158: both sorts and the subtraction of the centre between them.\<close>

definition normalise :: "scan_state \<Rightarrow> event list \<times> ending" where
  "normalise st =
     (case sorted_py (drift_pos_data st) of
        None \<Rightarrow> (printed st, Unmodelled)
      | Some sorted_drift_pos_data \<Rightarrow>
          (case relative_drift_pos_data (wafer_centre st) sorted_drift_pos_data of
             Inl e \<Rightarrow> (printed st, Raised e)
           | Inr rel \<Rightarrow>
               (case sorted_py rel of
                  None \<Rightarrow> (printed st @ [Print_relative_header], Unmodelled)
                | Some sorted_relative \<Rightarrow> render_positions st sorted_relative)))"

text \<open>Lines 136 to 138: the check for drift data, after the loop.\<close>

definition after_scan :: "scan_state \<Rightarrow> event list \<times> ending" where
  "after_scan st =
     (if \<not> drift_data_found st then (printed st @ [Print_no_drift_points], Exited)
      else normalise st)"

text \<open>Lines 73 to 215: everything after the check of the first line.\<close>

definition after_header :: "string \<Rightarrow> event list \<times> ending" where
  "after_header content =
     (case scan_lines (splitlines content) initial_state of
        Inl (e, out) \<Rightarrow> (out, Raised e)
      | Inr st \<Rightarrow> after_scan st)"

text \<open>
  The whole script on the text of the chosen file.  Lines 39 to 43 read the first line
  again and look for the marker.
\<close>

definition valid_header :: "string \<Rightarrow> bool" where
  "valid_header content = contains ''JMAN LOGFILE'' (strip (readline content))"

definition run :: "string \<Rightarrow> event list \<times> ending" where
  "run content =
     (if \<not> valid_header content then ([Print_invalid_logfile], Exited)
      else after_header content)"

subsection \<open>Notions for stating the properties\<close>

text \<open>The calibration block a line holds, if it holds one that converts.\<close>

definition block_of_line :: "string \<Rightarrow> block option" where
  "block_of_line line = (case position_groups line of None \<Rightarrow> None | Some g \<Rightarrow> block_of g)"

text \<open>
  The candidate timestamps of the drift lines of a log, in order: each from the date fields
  in force at its line (those of the last date line up to and with the line itself) and its
  own hour and minute.  \<open>None\<close> stands for a drift line without date fields or with fields
  that \<open>strptime\<close> rejects.
\<close>

definition fields_after :: "(string \<times> string \<times> string) option \<Rightarrow> string \<Rightarrow> (string \<times> string \<times> string) option" where
  "fields_after df line =
     (case date_groups line of None \<Rightarrow> df | Some (dyear, dmonth, dday, dtime) \<Rightarrow> Some (dyear, dmonth, dday))"

definition candidate :: "(string \<times> string \<times> string) option \<Rightarrow> string \<Rightarrow> datetime option list" where
  "candidate df line =
     (case drift_groups line of
        None \<Rightarrow> []
      | Some (hour, minute, dxdt, dydt) \<Rightarrow>
          [case df of None \<Rightarrow> None
           | Some (dyear, dmonth, dday) \<Rightarrow> strptime dyear dmonth dday hour minute])"

fun candidates :: "(string \<times> string \<times> string) option \<Rightarrow> string list \<Rightarrow> datetime option list" where
  "candidates df [] = []"
| "candidates df (line # rest) =
     candidate (fields_after df line) line @ candidates (fields_after df line) rest"

text \<open>The loop's treatment of the candidates alone: lines 111 to 115 and 122.\<close>

fun reconstruct :: "datetime option \<Rightarrow> datetime list \<Rightarrow> error + datetime list" where
  "reconstruct previous [] = Inr []"
| "reconstruct previous (c # cs) =
     (case day_rollover previous c of
        Inl e \<Rightarrow> Inl e
      | Inr t \<Rightarrow> (case reconstruct (Some t) cs of Inl e \<Rightarrow> Inl e | Inr ts \<Rightarrow> Inr (t # ts)))"

text \<open>The number of places where a list of times of day decreases.\<close>

fun descents :: "int list \<Rightarrow> nat" where
  "descents (a # b # rest) = (if b < a then 1 else 0) + descents (b # rest)"
| "descents rest = 0"





text \<open>The relative positions a run lists, in the order of the listing.\<close>

fun reported_positions :: "event list \<Rightarrow> (pyfloat \<times> pyfloat) list" where
  "reported_positions [] = []"
| "reported_positions (Print_relative x y # rest) = (x, y) # reported_positions rest"
| "reported_positions (e # rest) = reported_positions rest"

text \<open>The text of a file of the given lines, each ended by a newline.\<close>

definition join_lines :: "string list \<Rightarrow> string" where
  "join_lines ls = concat (map (\<lambda>l. l @ [CHR 0x0A]) ls)"

subsection \<open>Example logfiles\<close>

text \<open>A log with two wafer-centre lines, two drift samples across midnight and two blocks.\<close>

definition log_two_centres :: string where
  "log_two_centres = join_lines
     [''JMAN LOGFILE'',
      ''Thu Nov 14 17:30:26 AEST 2024'',
      ''--centre=1000,2000 --size=3000,4000'',
      ''--centre=5000,6000 --size=8000,8000'',
      ''cal drift 23:58 ; 1_nm,2_nm 3_nm/min,4_nm/min'',
      ''cal drift 00:02 ; 1_nm,2_nm 5_nm/min,6_nm/min'',
      ''block: 2 Abs coord: 7_mm,8_mm'',
      ''block: 1 Abs coord: 9_mm,5_mm'']"

text \<open>A log whose wafer centre is so far out that two x coordinates round to one.\<close>

definition log_far_centre :: string where
  "log_far_centre = join_lines
     [''JMAN LOGFILE'',
      ''Thu Nov 14 17:30:26 AEST 2024'',
      ''--centre=10000000000000000000,0 --size=8000,8000'',
      ''cal drift 23:58 ; 1_nm,2_nm 3_nm/min,4_nm/min'',
      ''block: 1 Abs coord: 0_mm,2_mm'',
      ''block: 1 Abs coord: 1_mm,1_mm'']"

text \<open>A log without drift lines whose wafer-centre line holds no numbers.\<close>

definition log_bad_centre :: string where
  "log_bad_centre = join_lines [''JMAN LOGFILE'', ''--centre=-,- --size=-,-'']"

text \<open>A log without drift lines.\<close>

definition log_no_drift :: string where
  "log_no_drift = join_lines [''JMAN LOGFILE'', ''Thu Nov 14 17:30:26 AEST 2024'']"

text \<open>A log without wafer centre whose drift line comes before any date line.\<close>

definition log_drift_before_date :: string where
  "log_drift_before_date = join_lines
     [''JMAN LOGFILE'',
      ''cal drift 23:58 ; 1_nm,2_nm 3_nm/min,4_nm/min'',
      ''block: 2 Abs coord: 7_mm,8_mm'']"

text \<open>A log without wafer centre.\<close>

definition log_no_centre :: string where
  "log_no_centre = join_lines
     [''JMAN LOGFILE'',
      ''Thu Nov 14 17:30:26 AEST 2024'',
      ''cal drift 23:58 ; 1_nm,2_nm 3_nm/min,4_nm/min'',
      ''block: 2 Abs coord: 7_mm,8_mm'']"

text \<open>A log with one date line whose drift samples pass midnight twice.\<close>

definition log_two_midnights :: string where
  "log_two_midnights = join_lines
     [''JMAN LOGFILE'',
      ''Thu Nov 14 17:30:26 AEST 2024'',
      ''cal drift 23:59 ; 1_nm,2_nm 3_nm/min,4_nm/min'',
      ''cal drift 00:01 ; 1_nm,2_nm 3_nm/min,4_nm/min'',
      ''cal drift 23:58 ; 1_nm,2_nm 3_nm/min,4_nm/min'',
      ''cal drift 00:02 ; 1_nm,2_nm 5_nm/min,6_nm/min'']"



section \<open>Properties\<close>

subsection \<open>The check of the first line\<close>







subsection \<open>The smallest and the largest drift rate\<close>



lemma flt_le_trans: "flt x y \<Longrightarrow> \<not> flt z y \<Longrightarrow> z \<noteq> NaN \<Longrightarrow> flt x z"
  by (cases x; cases y; cases z) auto


lemma flt_irrefl [simp]: "\<not> flt x x"
  by (cases x) auto

lemma flt_asym: "flt x y \<Longrightarrow> \<not> flt y x"
  by (cases x; cases y) auto





subsection \<open>The steps of the scan\<close>

lemma scan_line_steps:
  "scan_line l st = Inr st' \<longleftrightarrow>
   (\<exists>s1 s2 s3. scan_centre l st = Inr s1 \<and> scan_date l s1 = Inr s2
      \<and> scan_drift l s2 = Inr s3 \<and> scan_position l s3 = Inr st')"
  by (auto simp: scan_line_def then_do_def split: sum.splits)

lemma scan_centre_result:
  "scan_centre l st = Inr s \<Longrightarrow>
   (centre_groups l = None \<and> s = st) \<or>
   (\<exists>g cx cy sx sy. centre_groups l = Some g \<and> centre_floats g = Some (cx, cy, sx, sy)
      \<and> s = st\<lparr>wafer_centre := [cx, cy], size_xy := Some (sx, sy),
               printed := printed st @ [Print_centre cx cy, Print_size sx sy]\<rparr>)"
  by (auto simp: scan_centre_def split: option.splits)

lemma scan_date_result:
  "scan_date l st = Inr s \<Longrightarrow>
   s = st\<lparr>date_fields := fields_after (date_fields st) l, run_label := run_label s\<rparr>"
  by (auto simp: scan_date_def fields_after_def split: option.splits)

lemma scan_drift_result:
  "scan_drift l st = Inr s \<Longrightarrow>
   (drift_groups l = None \<and> s = st) \<or>
   (\<exists>g. drift_groups l = Some g \<and> drift_sample st g = Inr s)"
  by (auto simp: scan_drift_def split: option.splits)

lemma drift_sample_result:
  "drift_sample st (hour, minute, dxdt, dydt) = Inr s \<Longrightarrow>
   \<exists>dyear dmonth dday cand t dx dy.
     date_fields st = Some (dyear, dmonth, dday)
     \<and> strptime dyear dmonth dday hour minute = Some cand
     \<and> day_rollover (previous_timestamp st) cand = Inr t
     \<and> float_py dxdt = Some dx \<and> float_py dydt = Some dy
     \<and> s = st\<lparr>drift_data_found := True, previous_timestamp := Some t,
              timestamps := timestamps st @ [t],
              dxdt_values := dxdt_values st @ [dx], dydt_values := dydt_values st @ [dy]\<rparr>"
  by (auto simp: drift_sample_def split: option.splits sum.splits)

lemma scan_position_result:
  "scan_position l st = Inr s \<Longrightarrow>
   (position_groups l = None \<and> s = st) \<or>
   (\<exists>g blk. position_groups l = Some g \<and> block_of g = Some blk
      \<and> s = st\<lparr>drift_pos_data := drift_pos_data st @ [blk]\<rparr>)"
  by (auto simp: scan_position_def split: option.splits)

lemma scan_lines_append:
  "scan_lines (xs @ ys) st =
     (case scan_lines xs st of Inl e \<Rightarrow> Inl e | Inr st' \<Rightarrow> scan_lines ys st')"
  by (induction xs arbitrary: st) (auto split: sum.splits)

text \<open>Each step leaves the variables of the other steps alone.\<close>

lemma scan_date_keeps:
  "scan_date l st = Inr s \<Longrightarrow>
   wafer_centre s = wafer_centre st \<and> size_xy s = size_xy st \<and> printed s = printed st
   \<and> previous_timestamp s = previous_timestamp st \<and> drift_data_found s = drift_data_found st
   \<and> timestamps s = timestamps st \<and> dxdt_values s = dxdt_values st
   \<and> dydt_values s = dydt_values st \<and> drift_pos_data s = drift_pos_data st
   \<and> date_fields s = fields_after (date_fields st) l"
  by (auto simp: scan_date_def fields_after_def split: option.splits)

lemma scan_centre_keeps:
  "scan_centre l st = Inr s \<Longrightarrow>
   date_fields s = date_fields st \<and> run_label s = run_label st
   \<and> previous_timestamp s = previous_timestamp st \<and> drift_data_found s = drift_data_found st
   \<and> timestamps s = timestamps st \<and> dxdt_values s = dxdt_values st
   \<and> dydt_values s = dydt_values st \<and> drift_pos_data s = drift_pos_data st"
  by (auto simp: scan_centre_def split: option.splits)

lemma scan_drift_keeps:
  "scan_drift l st = Inr s \<Longrightarrow>
   wafer_centre s = wafer_centre st \<and> size_xy s = size_xy st \<and> printed s = printed st
   \<and> date_fields s = date_fields st \<and> run_label s = run_label st
   \<and> drift_pos_data s = drift_pos_data st"
  by (auto simp: scan_drift_def drift_sample_def split: option.splits sum.splits)

lemma scan_position_keeps:
  "scan_position l st = Inr s \<Longrightarrow>
   wafer_centre s = wafer_centre st \<and> size_xy s = size_xy st \<and> printed s = printed st
   \<and> date_fields s = date_fields st \<and> run_label s = run_label st
   \<and> previous_timestamp s = previous_timestamp st \<and> drift_data_found s = drift_data_found st
   \<and> timestamps s = timestamps st \<and> dxdt_values s = dxdt_values st
   \<and> dydt_values s = dydt_values st"
  by (auto simp: scan_position_def split: option.splits)

text \<open>What a line does to the wafer centre, the size and the console.\<close>

lemma scan_line_centre:
  assumes "scan_line l st = Inr st'"
  shows "(centre_groups l = None \<and> wafer_centre st' = wafer_centre st
            \<and> size_xy st' = size_xy st \<and> printed st' = printed st) \<or>
         (\<exists>g cx cy sx sy. centre_groups l = Some g \<and> centre_floats g = Some (cx, cy, sx, sy)
            \<and> wafer_centre st' = [cx, cy] \<and> size_xy st' = Some (sx, sy)
            \<and> printed st' = printed st @ [Print_centre cx cy, Print_size sx sy])"
proof -
  from assms obtain s1 s2 s3 where
    c: "scan_centre l st = Inr s1" and d: "scan_date l s1 = Inr s2" and
    r: "scan_drift l s2 = Inr s3" and p: "scan_position l s3 = Inr st'"
    using scan_line_steps by blast
  have k: "wafer_centre st' = wafer_centre s1 \<and> size_xy st' = size_xy s1 \<and> printed st' = printed s1"
    using scan_date_keeps [OF d] scan_drift_keeps [OF r] scan_position_keeps [OF p] by simp
  from scan_centre_result [OF c] show ?thesis
  proof
    assume "centre_groups l = None \<and> s1 = st"
    then show ?thesis using k by simp
  next
    assume "\<exists>g cx cy sx sy. centre_groups l = Some g \<and> centre_floats g = Some (cx, cy, sx, sy)
      \<and> s1 = st\<lparr>wafer_centre := [cx, cy], size_xy := Some (sx, sy),
               printed := printed st @ [Print_centre cx cy, Print_size sx sy]\<rparr>"
    then obtain g cx cy sx sy where "centre_groups l = Some g" "centre_floats g = Some (cx, cy, sx, sy)"
      "s1 = st\<lparr>wafer_centre := [cx, cy], size_xy := Some (sx, sy),
               printed := printed st @ [Print_centre cx cy, Print_size sx sy]\<rparr>" by blast
    then show ?thesis using k by simp
  qed
qed

text \<open>Lines that do not match the centre pattern leave centre, size and console as they are.\<close>

lemma scan_lines_no_centre:
  "\<forall>l\<in>set ls. centre_groups l = None \<Longrightarrow> scan_lines ls st = Inr st' \<Longrightarrow>
   wafer_centre st' = wafer_centre st \<and> size_xy st' = size_xy st \<and> printed st' = printed st"
proof (induction ls arbitrary: st)
  case Nil
  then show ?case by simp
next
  case (Cons l ls)
  from Cons.prems(2) obtain s where l: "scan_line l st = Inr s" and r: "scan_lines ls s = Inr st'"
    by (auto split: sum.splits)
  have "centre_groups l = None" using Cons.prems(1) by simp
  then have "wafer_centre s = wafer_centre st \<and> size_xy s = size_xy st \<and> printed s = printed st"
    using scan_line_centre [OF l] by auto
  moreover have "wafer_centre st' = wafer_centre s \<and> size_xy st' = size_xy s \<and> printed st' = printed s"
    using Cons.IH [OF _ r] Cons.prems(1) by simp
  ultimately show ?case by simp
qed

subsection \<open>Facts about a completed scan\<close>

lemma scan_line_found:
  assumes "scan_line l st = Inr st'"
  shows "drift_data_found st' = (drift_data_found st \<or> drift_groups l \<noteq> None)"
proof -
  from assms obtain s1 s2 s3 where
    c: "scan_centre l st = Inr s1" and d: "scan_date l s1 = Inr s2" and
    r: "scan_drift l s2 = Inr s3" and p: "scan_position l s3 = Inr st'"
    using scan_line_steps by blast
  have "drift_data_found s3 = (drift_data_found s2 \<or> drift_groups l \<noteq> None)"
    using r by (auto simp: scan_drift_def drift_sample_def split: option.splits sum.splits)
  then show ?thesis
    using scan_centre_keeps [OF c] scan_date_keeps [OF d] scan_position_keeps [OF p] by simp
qed

lemma scan_lines_found:
  "scan_lines ls st = Inr st' \<Longrightarrow>
   drift_data_found st' = (drift_data_found st \<or> (\<exists>l\<in>set ls. drift_groups l \<noteq> None))"
proof (induction ls arbitrary: st)
  case Nil
  then show ?case by simp
next
  case (Cons l ls)
  from Cons.prems obtain s where l: "scan_line l st = Inr s" and r: "scan_lines ls s = Inr st'"
    by (auto split: sum.splits)
  show ?case using Cons.IH [OF r] scan_line_found [OF l] by auto
qed

text \<open>The blocks of a completed scan are those of the lines, in order.\<close>

lemma scan_line_blocks:
  assumes "scan_line l st = Inr st'"
  shows "drift_pos_data st' = drift_pos_data st @ (case block_of_line l of None \<Rightarrow> [] | Some b \<Rightarrow> [b])
         \<and> (position_groups l \<noteq> None \<longrightarrow> block_of_line l \<noteq> None)"
proof -
  from assms obtain s1 s2 s3 where
    c: "scan_centre l st = Inr s1" and d: "scan_date l s1 = Inr s2" and
    r: "scan_drift l s2 = Inr s3" and p: "scan_position l s3 = Inr st'"
    using scan_line_steps by blast
  have "drift_pos_data s3 = drift_pos_data st"
    using scan_centre_keeps [OF c] scan_date_keeps [OF d] scan_drift_keeps [OF r] by simp
  then show ?thesis
    using scan_position_result [OF p] by (auto simp: block_of_line_def)
qed

lemma scan_lines_blocks:
  "scan_lines ls st = Inr st' \<Longrightarrow>
   drift_pos_data st' = drift_pos_data st @ List.map_filter block_of_line ls
   \<and> (\<forall>l\<in>set ls. position_groups l \<noteq> None \<longrightarrow> block_of_line l \<noteq> None)"
proof (induction ls arbitrary: st)
  case Nil
  then show ?case by (simp add: List.map_filter_simps)
next
  case (Cons l ls)
  from Cons.prems obtain s where l: "scan_line l st = Inr s" and r: "scan_lines ls s = Inr st'"
    by (auto split: sum.splits)
  show ?case using Cons.IH [OF r] scan_line_blocks [OF l]
    by (auto simp: List.map_filter_simps split: option.splits)
qed

text \<open>A failing scan has printed what the wafer-centre lines before the failure printed.\<close>

lemma scan_line_fails_quietly:
  "centre_groups l = None \<Longrightarrow> scan_line l st = Inl (e, out) \<Longrightarrow> out = printed st"
  by (auto simp: scan_line_def then_do_def scan_centre_def scan_date_def scan_drift_def
      drift_sample_def scan_position_def split: sum.splits option.splits prod.splits)

lemma scan_lines_fail_quietly:
  "\<forall>l\<in>set ls. centre_groups l = None \<Longrightarrow> scan_lines ls st = Inl (e, out) \<Longrightarrow>
   out = printed st"
proof (induction ls arbitrary: st)
  case Nil
  then show ?case by simp
next
  case (Cons l ls)
  have cl: "centre_groups l = None" using Cons.prems(1) by simp
  show ?case
  proof (cases "scan_line l st")
    case (Inl f)
    then have "scan_line l st = Inl (e, out)" using Cons.prems(2) by simp
    then show ?thesis using scan_line_fails_quietly [OF cl] by simp
  next
    case (Inr s)
    then have r: "scan_lines ls s = Inl (e, out)" using Cons.prems(2) by simp
    have "printed s = printed st" using scan_line_centre [OF Inr] cl by auto
    then show ?thesis using Cons.IH [OF _ r] Cons.prems(1) by simp
  qed
qed

text \<open>Nothing the scan prints is a call of the plotting library.\<close>

lemma scan_lines_print_only:
  "scan_lines ls st = Inr st' \<Longrightarrow> \<not> list_ex is_plot_call (printed st) \<Longrightarrow>
   \<not> list_ex is_plot_call (printed st')"
proof (induction ls arbitrary: st)
  case Nil
  then show ?case by simp
next
  case (Cons l ls)
  from Cons.prems obtain s where l: "scan_line l st = Inr s" and r: "scan_lines ls s = Inr st'"
    by (auto split: sum.splits)
  have "\<not> list_ex is_plot_call (printed s)"
    using scan_line_centre [OF l] Cons.prems(2) by auto
  then show ?case using Cons.IH [OF r] by simp
qed

text \<open>No conversion yields NaN.\<close>

lemma round_double_not_NaN [simp]: "round_double x \<noteq> NaN"
  by (simp add: round_double_def pack_def)

lemma float_py_not_NaN [simp]: "float_py s \<noteq> Some NaN"
proof -
  have u: "\<And>b. float_unsigned b \<noteq> Some NaN"
    by (simp add: float_unsigned_def float_parts_def float_digits_def)
  have n: "\<And>x. fneg x = NaN \<longleftrightarrow> x = NaN"
    subgoal for x by (cases x) auto
    done
  show ?thesis using u n by (auto simp: float_py_def)
qed

lemma block_of_line_no_nan: "block_of_line l = Some b \<Longrightarrow> \<not> has_nan b"
  by (cases b) (auto simp: block_of_line_def block_of_def split: option.splits)

lemma foldr_insort_length [simp]: "length (foldr insort_py xs []) = length xs"
proof -
  have "\<And>x ys. length (insort_py x ys) = Suc (length ys)"
    subgoal for x ys by (induction ys) auto
    done
  then show ?thesis by (induction xs) auto
qed

subsection \<open>The example logfiles, evaluated\<close>

lemma floor_numeral_div: "\<lfloor>(numeral a :: rat) / numeral b\<rfloor> = numeral a div numeral b"
  by (metis floor_divide_of_int_eq of_int_numeral)

lemma ceiling_numeral_div: "\<lceil>(numeral a :: rat) / numeral b\<rceil> = - ((- numeral a) div numeral b)"
  by (metis ceiling_divide_eq_div of_int_numeral)

lemmas float_eval = float_py_def float_unsigned_def float_parts_def float_digits_def
  int_of_digits_def digit_val_def is_digit_def round_double_def round_mag_def pack_def
  flog2_def bits.simps pow2_def round_half_even_def nearest_even_def
  floor_numeral_div ceiling_numeral_div

lemmas date_eval = strptime_def num_field_def month_of_def month_names_def to_lower_def
  days_in_month_def is_leap_def ymd2ord_def days_before_year_def days_before_month_def
  is_digit_def int_of_digits_def digit_val_def

text \<open>The groups of every line of the examples.\<close>

lemma groups_header:
  "centre_groups ''JMAN LOGFILE'' = None"
  "date_groups ''JMAN LOGFILE'' = None"
  "drift_groups ''JMAN LOGFILE'' = None"
  "position_groups ''JMAN LOGFILE'' = None"
  by code_simp+

lemma groups_date:
  "centre_groups ''Thu Nov 14 17:30:26 AEST 2024'' = None"
  "date_groups ''Thu Nov 14 17:30:26 AEST 2024'' = Some (''2024'', ''Nov'', ''14'', ''17:30:26'')"
  "drift_groups ''Thu Nov 14 17:30:26 AEST 2024'' = None"
  "position_groups ''Thu Nov 14 17:30:26 AEST 2024'' = None"
  by code_simp+

lemma groups_centre_a:
  "centre_groups ''--centre=1000,2000 --size=3000,4000'' = Some (''1000'', ''2000'', ''3000'', ''4000'')"
  "date_groups ''--centre=1000,2000 --size=3000,4000'' = None"
  "drift_groups ''--centre=1000,2000 --size=3000,4000'' = None"
  "position_groups ''--centre=1000,2000 --size=3000,4000'' = None"
  by code_simp+

lemma groups_centre_b:
  "centre_groups ''--centre=5000,6000 --size=8000,8000'' = Some (''5000'', ''6000'', ''8000'', ''8000'')"
  "date_groups ''--centre=5000,6000 --size=8000,8000'' = None"
  "drift_groups ''--centre=5000,6000 --size=8000,8000'' = None"
  "position_groups ''--centre=5000,6000 --size=8000,8000'' = None"
  by code_simp+

lemma groups_centre_far:
  "centre_groups ''--centre=10000000000000000000,0 --size=8000,8000'' = Some (''10000000000000000000'', ''0'', ''8000'', ''8000'')"
  "date_groups ''--centre=10000000000000000000,0 --size=8000,8000'' = None"
  "drift_groups ''--centre=10000000000000000000,0 --size=8000,8000'' = None"
  "position_groups ''--centre=10000000000000000000,0 --size=8000,8000'' = None"
  by code_simp+

lemma groups_centre_bad:
  "centre_groups ''--centre=-,- --size=-,-'' = Some (''-'', ''-'', ''-'', ''-'')"
  "date_groups ''--centre=-,- --size=-,-'' = None"
  "drift_groups ''--centre=-,- --size=-,-'' = None"
  "position_groups ''--centre=-,- --size=-,-'' = None"
  by code_simp+

lemma groups_drift_a:
  "centre_groups ''cal drift 23:58 ; 1_nm,2_nm 3_nm/min,4_nm/min'' = None"
  "date_groups ''cal drift 23:58 ; 1_nm,2_nm 3_nm/min,4_nm/min'' = None"
  "drift_groups ''cal drift 23:58 ; 1_nm,2_nm 3_nm/min,4_nm/min'' = Some (''23'', ''58'', ''3'', ''4'')"
  "position_groups ''cal drift 23:58 ; 1_nm,2_nm 3_nm/min,4_nm/min'' = None"
  by code_simp+

lemma groups_drift_b:
  "centre_groups ''cal drift 00:02 ; 1_nm,2_nm 5_nm/min,6_nm/min'' = None"
  "date_groups ''cal drift 00:02 ; 1_nm,2_nm 5_nm/min,6_nm/min'' = None"
  "drift_groups ''cal drift 00:02 ; 1_nm,2_nm 5_nm/min,6_nm/min'' = Some (''00'', ''02'', ''5'', ''6'')"
  "position_groups ''cal drift 00:02 ; 1_nm,2_nm 5_nm/min,6_nm/min'' = None"
  by code_simp+

lemma groups_block_a:
  "centre_groups ''block: 2 Abs coord: 7_mm,8_mm'' = None"
  "date_groups ''block: 2 Abs coord: 7_mm,8_mm'' = None"
  "drift_groups ''block: 2 Abs coord: 7_mm,8_mm'' = None"
  "position_groups ''block: 2 Abs coord: 7_mm,8_mm'' = Some (''2'', ''7'', ''8'')"
  by code_simp+

lemma groups_block_b:
  "centre_groups ''block: 1 Abs coord: 9_mm,5_mm'' = None"
  "date_groups ''block: 1 Abs coord: 9_mm,5_mm'' = None"
  "drift_groups ''block: 1 Abs coord: 9_mm,5_mm'' = None"
  "position_groups ''block: 1 Abs coord: 9_mm,5_mm'' = Some (''1'', ''9'', ''5'')"
  by code_simp+

lemma groups_block_c:
  "centre_groups ''block: 1 Abs coord: 0_mm,2_mm'' = None"
  "date_groups ''block: 1 Abs coord: 0_mm,2_mm'' = None"
  "drift_groups ''block: 1 Abs coord: 0_mm,2_mm'' = None"
  "position_groups ''block: 1 Abs coord: 0_mm,2_mm'' = Some (''1'', ''0'', ''2'')"
  by code_simp+

lemma groups_block_d:
  "centre_groups ''block: 1 Abs coord: 1_mm,1_mm'' = None"
  "date_groups ''block: 1 Abs coord: 1_mm,1_mm'' = None"
  "drift_groups ''block: 1 Abs coord: 1_mm,1_mm'' = None"
  "position_groups ''block: 1 Abs coord: 1_mm,1_mm'' = Some (''1'', ''1'', ''1'')"
  by code_simp+

lemmas groups_eval = groups_header groups_date groups_centre_a groups_centre_b groups_centre_far groups_centre_bad groups_drift_a groups_drift_b groups_block_a groups_block_b groups_block_c groups_block_d

text \<open>The numbers of the examples.\<close>

lemma floats_eval:
  "float_py ''1000'' = Some (Fin 1000)"
  "float_py ''2000'' = Some (Fin 2000)"
  "float_py ''3000'' = Some (Fin 3000)"
  "float_py ''4000'' = Some (Fin 4000)"
  "float_py ''5000'' = Some (Fin 5000)"
  "float_py ''6000'' = Some (Fin 6000)"
  "float_py ''8000'' = Some (Fin 8000)"
  "float_py ''10000000000000000000'' = Some (Fin 10000000000000000000)"
  "float_py ''0'' = Some (Fin 0)"
  "float_py ''1'' = Some (Fin 1)"
  "float_py ''2'' = Some (Fin 2)"
  "float_py ''3'' = Some (Fin 3)"
  "float_py ''4'' = Some (Fin 4)"
  "float_py ''5'' = Some (Fin 5)"
  "float_py ''6'' = Some (Fin 6)"
  "float_py ''7'' = Some (Fin 7)"
  "float_py ''8'' = Some (Fin 8)"
  "float_py ''9'' = Some (Fin 9)"
  "float_py ''-'' = None"
  by (simp_all add: float_eval)

lemma strptime_eval:
  "strptime ''2024'' ''Nov'' ''14'' ''23'' ''58'' = Some \<lparr>ordinal = 739204, minute_of_day = 1438\<rparr>"
  "strptime ''2024'' ''Nov'' ''14'' ''00'' ''02'' = Some \<lparr>ordinal = 739204, minute_of_day = 2\<rparr>"
  by (simp_all add: date_eval)

text \<open>What each line of the examples does to the state of the scan.\<close>

lemmas step_eval = scan_line_def scan_centre_def scan_date_def scan_drift_def scan_position_def
  then_do_def centre_floats_def block_of_def int_py_def int_of_digits_def digit_val_def

lemma fdiv_eval:
  "fdiv (Fin 1000) 1000 = Fin 1" "fdiv (Fin 2000) 1000 = Fin 2" "fdiv (Fin 3000) 1000 = Fin 3"
  "fdiv (Fin 4000) 1000 = Fin 4" "fdiv (Fin 5000) 1000 = Fin 5" "fdiv (Fin 6000) 1000 = Fin 6"
  "fdiv (Fin 8000) 1000 = Fin 8" "fdiv (Fin 0) 1000 = Fin 0"
  "fdiv (Fin 10000000000000000000) 1000 = Fin 10000000000000000"
  "fdiv (Fin 8) 2 = Fin 4" "fdiv (Fin (- 8)) 2 = Fin (- 4)"
  by (simp_all add: float_eval)

lemma scan_header: "scan_line ''JMAN LOGFILE'' st = Inr st"
  by (simp add: groups_header step_eval)

lemma scan_date_line:
  "scan_line ''Thu Nov 14 17:30:26 AEST 2024'' st =
     Inr (st\<lparr>date_fields := Some (''2024'', ''Nov'', ''14''),
              run_label := (case run_label st of
                              None \<Rightarrow> Some (''2024-Nov-14'', ''17:30:26'')
                            | Some l \<Rightarrow> Some l)\<rparr>)"
  by (simp add: groups_date step_eval split: option.splits)

lemma scan_centre_a:
  "scan_line ''--centre=1000,2000 --size=3000,4000'' st =
     Inr (st\<lparr>wafer_centre := [Fin 1, Fin 2], size_xy := Some (Fin 3, Fin 4),
              printed := printed st @ [Print_centre (Fin 1) (Fin 2), Print_size (Fin 3) (Fin 4)]\<rparr>)"
  by (simp add: groups_centre_a step_eval floats_eval fdiv_eval del: fdiv.simps)

lemma scan_centre_b:
  "scan_line ''--centre=5000,6000 --size=8000,8000'' st =
     Inr (st\<lparr>wafer_centre := [Fin 5, Fin 6], size_xy := Some (Fin 8, Fin 8),
              printed := printed st @ [Print_centre (Fin 5) (Fin 6), Print_size (Fin 8) (Fin 8)]\<rparr>)"
  by (simp add: groups_centre_b step_eval floats_eval fdiv_eval del: fdiv.simps)

lemma scan_centre_far:
  "scan_line ''--centre=10000000000000000000,0 --size=8000,8000'' st =
     Inr (st\<lparr>wafer_centre := [Fin 10000000000000000, Fin 0], size_xy := Some (Fin 8, Fin 8),
              printed := printed st @ [Print_centre (Fin 10000000000000000) (Fin 0),
                                       Print_size (Fin 8) (Fin 8)]\<rparr>)"
  by (simp add: groups_centre_far step_eval floats_eval fdiv_eval del: fdiv.simps)

lemma scan_centre_bad:
  "scan_line ''--centre=-,- --size=-,-'' st = Inl (ValueError, printed st)"
  by (simp add: groups_centre_bad step_eval floats_eval)

lemma scan_drift_a:
  "scan_line ''cal drift 23:58 ; 1_nm,2_nm 3_nm/min,4_nm/min'' st =
     drift_sample st (''23'', ''58'', ''3'', ''4'')"
  by (simp add: groups_drift_a step_eval split: sum.splits)

lemma scan_drift_b:
  "scan_line ''cal drift 00:02 ; 1_nm,2_nm 5_nm/min,6_nm/min'' st =
     drift_sample st (''00'', ''02'', ''5'', ''6'')"
  by (simp add: groups_drift_b step_eval split: sum.splits)

lemma scan_block_a:
  "scan_line ''block: 2 Abs coord: 7_mm,8_mm'' st =
     Inr (st\<lparr>drift_pos_data := drift_pos_data st @ [(2, Fin 7, Fin 8)]\<rparr>)"
  by (simp add: groups_block_a step_eval floats_eval)

lemma scan_block_b:
  "scan_line ''block: 1 Abs coord: 9_mm,5_mm'' st =
     Inr (st\<lparr>drift_pos_data := drift_pos_data st @ [(1, Fin 9, Fin 5)]\<rparr>)"
  by (simp add: groups_block_b step_eval floats_eval)

lemma scan_block_c:
  "scan_line ''block: 1 Abs coord: 0_mm,2_mm'' st =
     Inr (st\<lparr>drift_pos_data := drift_pos_data st @ [(1, Fin 0, Fin 2)]\<rparr>)"
  by (simp add: groups_block_c step_eval floats_eval)

lemma scan_block_d:
  "scan_line ''block: 1 Abs coord: 1_mm,1_mm'' st =
     Inr (st\<lparr>drift_pos_data := drift_pos_data st @ [(1, Fin 1, Fin 1)]\<rparr>)"
  by (simp add: groups_block_d step_eval floats_eval)

lemmas line_eval = scan_header scan_date_line scan_centre_a scan_centre_b scan_centre_far
  scan_centre_bad scan_drift_a scan_drift_b scan_block_a scan_block_b scan_block_c scan_block_d

lemmas sample_eval = drift_sample_def strptime_eval floats_eval day_rollover_def dt_less_def
  add_day_def max_ordinal_def

text \<open>The lines of the examples, and their first lines.\<close>

lemma lines_two_centres:
  "splitlines log_two_centres =
     [''JMAN LOGFILE'', ''Thu Nov 14 17:30:26 AEST 2024'',
      ''--centre=1000,2000 --size=3000,4000'', ''--centre=5000,6000 --size=8000,8000'',
      ''cal drift 23:58 ; 1_nm,2_nm 3_nm/min,4_nm/min'',
      ''cal drift 00:02 ; 1_nm,2_nm 5_nm/min,6_nm/min'',
      ''block: 2 Abs coord: 7_mm,8_mm'', ''block: 1 Abs coord: 9_mm,5_mm'']"
  by code_simp

lemma lines_far_centre:
  "splitlines log_far_centre =
     [''JMAN LOGFILE'', ''Thu Nov 14 17:30:26 AEST 2024'',
      ''--centre=10000000000000000000,0 --size=8000,8000'',
      ''cal drift 23:58 ; 1_nm,2_nm 3_nm/min,4_nm/min'',
      ''block: 1 Abs coord: 0_mm,2_mm'', ''block: 1 Abs coord: 1_mm,1_mm'']"
  by code_simp

lemma lines_bad_centre:
  "splitlines log_bad_centre = [''JMAN LOGFILE'', ''--centre=-,- --size=-,-'']"
  by code_simp

lemma lines_no_drift:
  "splitlines log_no_drift = [''JMAN LOGFILE'', ''Thu Nov 14 17:30:26 AEST 2024'']"
  by code_simp

lemma lines_drift_before_date:
  "splitlines log_drift_before_date =
     [''JMAN LOGFILE'', ''cal drift 23:58 ; 1_nm,2_nm 3_nm/min,4_nm/min'',
      ''block: 2 Abs coord: 7_mm,8_mm'']"
  by code_simp

lemma lines_no_centre:
  "splitlines log_no_centre =
     [''JMAN LOGFILE'', ''Thu Nov 14 17:30:26 AEST 2024'',
      ''cal drift 23:58 ; 1_nm,2_nm 3_nm/min,4_nm/min'', ''block: 2 Abs coord: 7_mm,8_mm'']"
  by code_simp

lemma headers_valid:
  "valid_header log_two_centres" "valid_header log_far_centre" "valid_header log_bad_centre"
  "valid_header log_no_drift" "valid_header log_drift_before_date" "valid_header log_no_centre"
  by code_simp+

text \<open>The scans of the examples.\<close>

lemma scan_two_centres:
  "scan_lines (splitlines log_two_centres) initial_state =
     Inr \<lparr>wafer_centre = [Fin 5, Fin 6], size_xy = Some (Fin 8, Fin 8),
          date_fields = Some (''2024'', ''Nov'', ''14''),
          run_label = Some (''2024-Nov-14'', ''17:30:26''),
          previous_timestamp = Some \<lparr>ordinal = 739205, minute_of_day = 2\<rparr>,
          drift_data_found = True,
          timestamps = [\<lparr>ordinal = 739204, minute_of_day = 1438\<rparr>,
                        \<lparr>ordinal = 739205, minute_of_day = 2\<rparr>],
          dxdt_values = [Fin 3, Fin 5], dydt_values = [Fin 4, Fin 6],
          drift_pos_data = [(2, Fin 7, Fin 8), (1, Fin 9, Fin 5)],
          printed = [Print_centre (Fin 1) (Fin 2), Print_size (Fin 3) (Fin 4),
                     Print_centre (Fin 5) (Fin 6), Print_size (Fin 8) (Fin 8)]\<rparr>"
  by (simp add: lines_two_centres initial_state_def line_eval sample_eval)

lemma scan_far_centre:
  "scan_lines (splitlines log_far_centre) initial_state =
     Inr \<lparr>wafer_centre = [Fin 10000000000000000, Fin 0], size_xy = Some (Fin 8, Fin 8),
          date_fields = Some (''2024'', ''Nov'', ''14''),
          run_label = Some (''2024-Nov-14'', ''17:30:26''),
          previous_timestamp = Some \<lparr>ordinal = 739204, minute_of_day = 1438\<rparr>,
          drift_data_found = True,
          timestamps = [\<lparr>ordinal = 739204, minute_of_day = 1438\<rparr>],
          dxdt_values = [Fin 3], dydt_values = [Fin 4],
          drift_pos_data = [(1, Fin 0, Fin 2), (1, Fin 1, Fin 1)],
          printed = [Print_centre (Fin 10000000000000000) (Fin 0), Print_size (Fin 8) (Fin 8)]\<rparr>"
  by (simp add: lines_far_centre initial_state_def line_eval sample_eval)

lemma scan_bad_centre:
  "scan_lines (splitlines log_bad_centre) initial_state = Inl (ValueError, [])"
  by (simp add: lines_bad_centre initial_state_def line_eval sample_eval)

lemma scan_no_drift:
  "scan_lines (splitlines log_no_drift) initial_state =
     Inr \<lparr>wafer_centre = [], size_xy = None,
          date_fields = Some (''2024'', ''Nov'', ''14''),
          run_label = Some (''2024-Nov-14'', ''17:30:26''),
          previous_timestamp = None, drift_data_found = False, timestamps = [],
          dxdt_values = [], dydt_values = [], drift_pos_data = [], printed = []\<rparr>"
  by (simp add: lines_no_drift initial_state_def line_eval sample_eval)

lemma scan_drift_before_date:
  "scan_lines (splitlines log_drift_before_date) initial_state = Inl (NameError, [])"
  by (simp add: lines_drift_before_date initial_state_def line_eval sample_eval)

lemma scan_no_centre:
  "scan_lines (splitlines log_no_centre) initial_state =
     Inr \<lparr>wafer_centre = [], size_xy = None,
          date_fields = Some (''2024'', ''Nov'', ''14''),
          run_label = Some (''2024-Nov-14'', ''17:30:26''),
          previous_timestamp = Some \<lparr>ordinal = 739204, minute_of_day = 1438\<rparr>,
          drift_data_found = True,
          timestamps = [\<lparr>ordinal = 739204, minute_of_day = 1438\<rparr>],
          dxdt_values = [Fin 3], dydt_values = [Fin 4],
          drift_pos_data = [(2, Fin 7, Fin 8)], printed = []\<rparr>"
  by (simp add: lines_no_centre initial_state_def line_eval sample_eval)

text \<open>The runs of the examples.\<close>

lemmas run_eval = run_def headers_valid after_header_def after_scan_def normalise_def
  sorted_py_def render_positions_def finite_limits_def render_drift_def print_relative_def
  scatter_relative_def
  time_values_def minutes_between_def min_abs_def max_abs_def fdiv_eval

lemma fsub_eval:
  "fsub (Fin 9) (Fin 5) = Fin 4" "fsub (Fin 5) (Fin 6) = Fin (- 1)"
  "fsub (Fin 7) (Fin 5) = Fin 2" "fsub (Fin 8) (Fin 6) = Fin 2"
  "fsub (Fin 0) (Fin 10000000000000000) = Fin (- 10000000000000000)"
  "fsub (Fin 1) (Fin 10000000000000000) = Fin (- 10000000000000000)"
  "fsub (Fin 2) (Fin 0) = Fin 2" "fsub (Fin 1) (Fin 0) = Fin 1"
  by (simp_all add: float_eval)

lemma run_two_centres:
  "run log_two_centres =
     ([Print_centre (Fin 1) (Fin 2), Print_size (Fin 3) (Fin 4),
       Print_centre (Fin 5) (Fin 6), Print_size (Fin 8) (Fin 8),
       Print_relative_header, Print_relative (Fin 4) (Fin (- 1)), Print_relative (Fin 2) (Fin 2),
       Plt_figure, Plt_xlim (Fin (- 4), Fin 4), Plt_ylim (Fin (- 4), Fin 4),
       Plt_scatter (Fin 4) (Fin (- 1)), Plt_scatter (Fin 2) (Fin 2), Plt_show_positions,
       Plt_plot [Fin 0, Fin 4] [Fin 3, Fin 5], Plt_plot [Fin 0, Fin 4] [Fin 4, Fin 6],
       Print_summary (Fin 3) (Fin 5) (Fin 4) (Fin 6),
       Plt_show_drift (Some (''2024-Nov-14'', ''17:30:26''))],
      Completed)"
  by (simp add: run_eval scan_two_centres fsub_eval del: fdiv.simps fsub.simps)

lemma run_far_centre:
  "run log_far_centre =
     ([Print_centre (Fin 10000000000000000) (Fin 0), Print_size (Fin 8) (Fin 8),
       Print_relative_header,
       Print_relative (Fin (- 10000000000000000)) (Fin 1),
       Print_relative (Fin (- 10000000000000000)) (Fin 2),
       Plt_figure, Plt_xlim (Fin (- 4), Fin 4), Plt_ylim (Fin (- 4), Fin 4),
       Plt_scatter (Fin (- 10000000000000000)) (Fin 1),
       Plt_scatter (Fin (- 10000000000000000)) (Fin 2), Plt_show_positions,
       Plt_plot [Fin 0] [Fin 3], Plt_plot [Fin 0] [Fin 4],
       Print_summary (Fin 3) (Fin 3) (Fin 4) (Fin 4),
       Plt_show_drift (Some (''2024-Nov-14'', ''17:30:26''))],
      Completed)"
  by (simp add: run_eval scan_far_centre fsub_eval del: fdiv.simps fsub.simps)

lemma run_bad_centre: "run log_bad_centre = ([], Raised ValueError)"
  by (simp add: run_eval scan_bad_centre)

lemma run_no_drift: "run log_no_drift = ([Print_no_drift_points], Exited)"
  by (simp add: run_eval scan_no_drift)

lemma run_drift_before_date: "run log_drift_before_date = ([], Raised NameError)"
  by (simp add: run_eval scan_drift_before_date)

lemma run_no_centre: "run log_no_centre = ([], Raised IndexError)"
  by (simp add: run_eval scan_no_centre)

subsection \<open>Further examples, evaluated\<close>

lemma groups_mid_a:
  "centre_groups ''cal drift 23:59 ; 1_nm,2_nm 3_nm/min,4_nm/min'' = None"
  "date_groups ''cal drift 23:59 ; 1_nm,2_nm 3_nm/min,4_nm/min'' = None"
  "drift_groups ''cal drift 23:59 ; 1_nm,2_nm 3_nm/min,4_nm/min'' = Some (''23'', ''59'', ''3'', ''4'')"
  "position_groups ''cal drift 23:59 ; 1_nm,2_nm 3_nm/min,4_nm/min'' = None"
  by code_simp+

lemma groups_mid_b:
  "centre_groups ''cal drift 00:01 ; 1_nm,2_nm 3_nm/min,4_nm/min'' = None"
  "date_groups ''cal drift 00:01 ; 1_nm,2_nm 3_nm/min,4_nm/min'' = None"
  "drift_groups ''cal drift 00:01 ; 1_nm,2_nm 3_nm/min,4_nm/min'' = Some (''00'', ''01'', ''3'', ''4'')"
  "position_groups ''cal drift 00:01 ; 1_nm,2_nm 3_nm/min,4_nm/min'' = None"
  by code_simp+

lemma groups_rate_a:
  "centre_groups ''cal drift 10:00 ; 1_nm,2_nm -5.0_nm/min,5.0_nm/min'' = None"
  "date_groups ''cal drift 10:00 ; 1_nm,2_nm -5.0_nm/min,5.0_nm/min'' = None"
  "drift_groups ''cal drift 10:00 ; 1_nm,2_nm -5.0_nm/min,5.0_nm/min'' = Some (''10'', ''00'', ''-5.0'', ''5.0'')"
  "position_groups ''cal drift 10:00 ; 1_nm,2_nm -5.0_nm/min,5.0_nm/min'' = None"
  by code_simp+

lemma groups_rate_b:
  "centre_groups ''cal drift 10:01 ; 1_nm,2_nm 3.2_nm/min,-5.0_nm/min'' = None"
  "date_groups ''cal drift 10:01 ; 1_nm,2_nm 3.2_nm/min,-5.0_nm/min'' = None"
  "drift_groups ''cal drift 10:01 ; 1_nm,2_nm 3.2_nm/min,-5.0_nm/min'' = Some (''10'', ''01'', ''3.2'', ''-5.0'')"
  "position_groups ''cal drift 10:01 ; 1_nm,2_nm 3.2_nm/min,-5.0_nm/min'' = None"
  by code_simp+

lemma groups_rate_c:
  "centre_groups ''cal drift 10:02 ; 1_nm,2_nm -1.1_nm/min,3.2_nm/min'' = None"
  "date_groups ''cal drift 10:02 ; 1_nm,2_nm -1.1_nm/min,3.2_nm/min'' = None"
  "drift_groups ''cal drift 10:02 ; 1_nm,2_nm -1.1_nm/min,3.2_nm/min'' = Some (''10'', ''02'', ''-1.1'', ''3.2'')"
  "position_groups ''cal drift 10:02 ; 1_nm,2_nm -1.1_nm/min,3.2_nm/min'' = None"
  by code_simp+



lemma strptime_more:
  "strptime ''2024'' ''Nov'' ''14'' ''23'' ''59'' = Some \<lparr>ordinal = 739204, minute_of_day = 1439\<rparr>"
  "strptime ''2024'' ''Nov'' ''14'' ''00'' ''01'' = Some \<lparr>ordinal = 739204, minute_of_day = 1\<rparr>"
  "strptime ''2024'' ''Nov'' ''14'' ''10'' ''00'' = Some \<lparr>ordinal = 739204, minute_of_day = 600\<rparr>"
  "strptime ''2024'' ''Nov'' ''14'' ''10'' ''01'' = Some \<lparr>ordinal = 739204, minute_of_day = 601\<rparr>"
  "strptime ''2024'' ''Nov'' ''14'' ''10'' ''02'' = Some \<lparr>ordinal = 739204, minute_of_day = 602\<rparr>"
  by (simp_all add: date_eval)

lemma scan_mid_a:
  "scan_line ''cal drift 23:59 ; 1_nm,2_nm 3_nm/min,4_nm/min'' st =
     drift_sample st (''23'', ''59'', ''3'', ''4'')"
  by (simp add: groups_mid_a step_eval split: sum.splits)

lemma scan_mid_b:
  "scan_line ''cal drift 00:01 ; 1_nm,2_nm 3_nm/min,4_nm/min'' st =
     drift_sample st (''00'', ''01'', ''3'', ''4'')"
  by (simp add: groups_mid_b step_eval split: sum.splits)

lemma scan_rate_a:
  "scan_line ''cal drift 10:00 ; 1_nm,2_nm -5.0_nm/min,5.0_nm/min'' st =
     drift_sample st (''10'', ''00'', ''-5.0'', ''5.0'')"
  by (simp add: groups_rate_a step_eval split: sum.splits)

lemma scan_rate_b:
  "scan_line ''cal drift 10:01 ; 1_nm,2_nm 3.2_nm/min,-5.0_nm/min'' st =
     drift_sample st (''10'', ''01'', ''3.2'', ''-5.0'')"
  by (simp add: groups_rate_b step_eval split: sum.splits)

lemma scan_rate_c:
  "scan_line ''cal drift 10:02 ; 1_nm,2_nm -1.1_nm/min,3.2_nm/min'' st =
     drift_sample st (''10'', ''02'', ''-1.1'', ''3.2'')"
  by (simp add: groups_rate_c step_eval split: sum.splits)

lemmas line_more = scan_mid_a scan_mid_b scan_rate_a scan_rate_b scan_rate_c

lemma lines_two_midnights:
  "splitlines log_two_midnights =
     [''JMAN LOGFILE'',
      ''Thu Nov 14 17:30:26 AEST 2024'',
      ''cal drift 23:59 ; 1_nm,2_nm 3_nm/min,4_nm/min'',
      ''cal drift 00:01 ; 1_nm,2_nm 3_nm/min,4_nm/min'',
      ''cal drift 23:58 ; 1_nm,2_nm 3_nm/min,4_nm/min'',
      ''cal drift 00:02 ; 1_nm,2_nm 5_nm/min,6_nm/min'']"
  by code_simp




lemma scan_two_midnights:
  "scan_lines (splitlines log_two_midnights) initial_state =
     Inr \<lparr>wafer_centre = [], size_xy = None,
          date_fields = Some (''2024'', ''Nov'', ''14''),
          run_label = Some (''2024-Nov-14'', ''17:30:26''),
          previous_timestamp = Some \<lparr>ordinal = 739205, minute_of_day = 2\<rparr>,
          drift_data_found = True,
          timestamps = [\<lparr>ordinal = 739204, minute_of_day = 1439\<rparr>,
                        \<lparr>ordinal = 739205, minute_of_day = 1\<rparr>,
                        \<lparr>ordinal = 739205, minute_of_day = 1438\<rparr>,
                        \<lparr>ordinal = 739205, minute_of_day = 2\<rparr>],
          dxdt_values = [Fin 3, Fin 3, Fin 3, Fin 5], dydt_values = [Fin 4, Fin 4, Fin 4, Fin 6],
          drift_pos_data = [], printed = []\<rparr>"
  by (simp add: lines_two_midnights initial_state_def line_eval line_more sample_eval
      strptime_more)





subsection \<open>The wafer centre\<close>

text \<open>
  C4, as stated: with two or more lines matching the wafer-centre pattern the centre and
  size of the first are used.  The log \<open>log_two_centres\<close> refutes it.  Its first matching
  line gives the centre (1, 2) and the size (3, 4) in mm, its second (5, 6) and (8, 8).
  The run lists the positions relative to (5, 6) and sets the limits to half of (8, 8);
  limits of half of (3, 4) do not occur.
\<close>

theorem first_centre_overwritten:
  "centre_groups (splitlines log_two_centres ! 2) = Some (''1000'', ''2000'', ''3000'', ''4000'')
   \<and> centre_floats (''1000'', ''2000'', ''3000'', ''4000'') = Some (Fin 1, Fin 2, Fin 3, Fin 4)
   \<and> centre_groups (splitlines log_two_centres ! 0) = None
   \<and> centre_groups (splitlines log_two_centres ! 1) = None
   \<and> reported_positions (fst (run log_two_centres)) = [(Fin 4, Fin (- 1)), (Fin 2, Fin 2)]
   \<and> Plt_xlim (Fin (- 4), Fin 4) \<in> set (fst (run log_two_centres))
   \<and> Plt_ylim (Fin (- 4), Fin 4) \<in> set (fst (run log_two_centres))
   \<and> Plt_xlim (fdiv (fneg (Fin 3)) 2, fdiv (Fin 3) 2) \<notin> set (fst (run log_two_centres))
   \<and> Plt_ylim (fdiv (fneg (Fin 4)) 2, fdiv (Fin 4) 2) \<notin> set (fst (run log_two_centres))"
  by (simp add: run_two_centres lines_two_centres groups_eval centre_floats_def floats_eval
      fdiv_eval float_eval)

text \<open>
  C4, amended: the centre and size that normalisation and plotting read from the state are
  those of the last line matching the wafer-centre pattern; every match overwrites the one
  before.
\<close>

theorem last_centre_wins:
  assumes "scan_lines (pre @ l # post) initial_state = Inr st"
    and "centre_groups l = Some g"
    and "\<forall>p\<in>set post. centre_groups p = None"
  shows "\<exists>cx cy sx sy. centre_floats g = Some (cx, cy, sx, sy)
           \<and> wafer_centre st = [cx, cy] \<and> size_xy st = Some (sx, sy)"
proof -
  from assms(1) obtain s1 where "scan_lines pre initial_state = Inr s1"
    and "scan_lines (l # post) s1 = Inr st"
    by (auto simp: scan_lines_append split: sum.splits)
  then obtain s2 where l: "scan_line l s1 = Inr s2" and p: "scan_lines post s2 = Inr st"
    by (auto split: sum.splits)
  from scan_line_centre [OF l] assms(2) obtain cx cy sx sy where
    "centre_floats g = Some (cx, cy, sx, sy)" "wafer_centre s2 = [cx, cy]" "size_xy s2 = Some (sx, sy)"
    by auto
  then show ?thesis using scan_lines_no_centre [OF assms(3) p] by simp
qed

theorem last_centre_wins_witness:
  "(\<exists>st. scan_lines
           ([''JMAN LOGFILE'', ''Thu Nov 14 17:30:26 AEST 2024'',
             ''--centre=1000,2000 --size=3000,4000'']
            @ ''--centre=5000,6000 --size=8000,8000''
            # [''cal drift 23:58 ; 1_nm,2_nm 3_nm/min,4_nm/min'',
               ''cal drift 00:02 ; 1_nm,2_nm 5_nm/min,6_nm/min'',
               ''block: 2 Abs coord: 7_mm,8_mm'', ''block: 1 Abs coord: 9_mm,5_mm''])
           initial_state = Inr st
         \<and> wafer_centre st = [Fin 5, Fin 6] \<and> size_xy st = Some (Fin 8, Fin 8))
   \<and> centre_groups ''--centre=5000,6000 --size=8000,8000''
       = Some (''5000'', ''6000'', ''8000'', ''8000'')
   \<and> centre_groups ''cal drift 23:58 ; 1_nm,2_nm 3_nm/min,4_nm/min'' = None
   \<and> centre_groups ''cal drift 00:02 ; 1_nm,2_nm 5_nm/min,6_nm/min'' = None
   \<and> centre_groups ''block: 2 Abs coord: 7_mm,8_mm'' = None
   \<and> centre_groups ''block: 1 Abs coord: 9_mm,5_mm'' = None
   \<and> centre_floats (''5000'', ''6000'', ''8000'', ''8000'') = Some (Fin 5, Fin 6, Fin 8, Fin 8)"
proof -
  let ?pre = "[''JMAN LOGFILE'', ''Thu Nov 14 17:30:26 AEST 2024'',
               ''--centre=1000,2000 --size=3000,4000'']"
  let ?post = "[''cal drift 23:58 ; 1_nm,2_nm 3_nm/min,4_nm/min'',
                ''cal drift 00:02 ; 1_nm,2_nm 5_nm/min,6_nm/min'',
                ''block: 2 Abs coord: 7_mm,8_mm'', ''block: 1 Abs coord: 9_mm,5_mm'']"
  let ?st = "\<lparr>wafer_centre = [Fin 5, Fin 6], size_xy = Some (Fin 8, Fin 8),
          date_fields = Some (''2024'', ''Nov'', ''14''),
          run_label = Some (''2024-Nov-14'', ''17:30:26''),
          previous_timestamp = Some \<lparr>ordinal = 739205, minute_of_day = 2\<rparr>,
          drift_data_found = True,
          timestamps = [\<lparr>ordinal = 739204, minute_of_day = 1438\<rparr>,
                        \<lparr>ordinal = 739205, minute_of_day = 2\<rparr>],
          dxdt_values = [Fin 3, Fin 5], dydt_values = [Fin 4, Fin 6],
          drift_pos_data = [(2, Fin 7, Fin 8), (1, Fin 9, Fin 5)],
          printed = [Print_centre (Fin 1) (Fin 2), Print_size (Fin 3) (Fin 4),
                     Print_centre (Fin 5) (Fin 6), Print_size (Fin 8) (Fin 8)]\<rparr>"
  have s: "scan_lines (?pre @ ''--centre=5000,6000 --size=8000,8000'' # ?post) initial_state = Inr ?st"
    using scan_two_centres by (simp add: lines_two_centres)
  have g: "centre_groups ''--centre=5000,6000 --size=8000,8000''
             = Some (''5000'', ''6000'', ''8000'', ''8000'')"
    by (simp add: groups_eval)
  have n: "\<forall>p\<in>set ?post. centre_groups p = None"
    by (simp add: groups_eval)
  from last_centre_wins [OF s g n] s g show ?thesis
    by (simp add: groups_eval centre_floats_def floats_eval fdiv_eval del: fdiv.simps)
qed

subsection \<open>The check for drift data\<close>

text \<open>
  C7, as stated: a log with a valid header and no line matching the drift pattern makes the
  run report that it holds no drift calibration points.  The log \<open>log_bad_centre\<close> refutes
  it: its header is valid and neither of its two lines matches the drift pattern, but its
  wafer-centre line holds \<open>-\<close> where a number should be, \<open>float\<close> raises ValueError in the
  scan and the check after the scan is never reached.
\<close>

theorem no_drift_but_value_error:
  "valid_header log_bad_centre
   \<and> splitlines log_bad_centre = [''JMAN LOGFILE'', ''--centre=-,- --size=-,-'']
   \<and> drift_groups ''JMAN LOGFILE'' = None
   \<and> drift_groups ''--centre=-,- --size=-,-'' = None
   \<and> run log_bad_centre = ([], Raised ValueError)"
  by (simp add: headers_valid lines_bad_centre groups_eval run_bad_centre)

text \<open>
  C7, amended: when the header is valid and the scan of the lines completes, a log without
  a line matching the drift pattern makes the run print the diagnostic of missing drift
  points after what the scan printed and exit, with no call of the plotting library; a log
  with at least one such line passes the check, and the run goes on to normalise.
\<close>

theorem drift_check:
  assumes "valid_header content"
    and "scan_lines (splitlines content) initial_state = Inr st"
  shows "((\<forall>l\<in>set (splitlines content). drift_groups l = None) \<longrightarrow>
            run content = (printed st @ [Print_no_drift_points], Exited)
            \<and> \<not> list_ex is_plot_call (fst (run content)))
       \<and> ((\<exists>l\<in>set (splitlines content). drift_groups l \<noteq> None) \<longrightarrow>
            run content = normalise st)"
proof -
  have f: "drift_data_found st = (\<exists>l\<in>set (splitlines content). drift_groups l \<noteq> None)"
    using scan_lines_found [OF assms(2)] by (simp add: initial_state_def)
  have p: "\<not> list_ex is_plot_call (printed st)"
    using scan_lines_print_only [OF assms(2)] by (simp add: initial_state_def)
  have r: "run content = after_scan st"
    using assms by (simp add: run_def after_header_def)
  show ?thesis using f p r by (auto simp: after_scan_def)
qed

theorem drift_check_witness:
  "valid_header log_no_drift
   \<and> scan_lines (splitlines log_no_drift) initial_state =
       Inr \<lparr>wafer_centre = [], size_xy = None,
            date_fields = Some (''2024'', ''Nov'', ''14''),
            run_label = Some (''2024-Nov-14'', ''17:30:26''),
            previous_timestamp = None, drift_data_found = False, timestamps = [],
            dxdt_values = [], dydt_values = [], drift_pos_data = [], printed = []\<rparr>
   \<and> splitlines log_no_drift = [''JMAN LOGFILE'', ''Thu Nov 14 17:30:26 AEST 2024'']
   \<and> drift_groups ''JMAN LOGFILE'' = None
   \<and> drift_groups ''Thu Nov 14 17:30:26 AEST 2024'' = None
   \<and> run log_no_drift = ([Print_no_drift_points], Exited)
   \<and> valid_header log_no_centre
   \<and> splitlines log_no_centre ! 2 = ''cal drift 23:58 ; 1_nm,2_nm 3_nm/min,4_nm/min''
   \<and> drift_groups ''cal drift 23:58 ; 1_nm,2_nm 3_nm/min,4_nm/min''
       = Some (''23'', ''58'', ''3'', ''4'')
   \<and> run log_no_centre =
       normalise
         \<lparr>wafer_centre = [], size_xy = None,
          date_fields = Some (''2024'', ''Nov'', ''14''),
          run_label = Some (''2024-Nov-14'', ''17:30:26''),
          previous_timestamp = Some \<lparr>ordinal = 739204, minute_of_day = 1438\<rparr>,
          drift_data_found = True,
          timestamps = [\<lparr>ordinal = 739204, minute_of_day = 1438\<rparr>],
          dxdt_values = [Fin 3], dydt_values = [Fin 4],
          drift_pos_data = [(2, Fin 7, Fin 8)], printed = []\<rparr>"
proof -
  have a: "\<forall>l\<in>set (splitlines log_no_drift). drift_groups l = None"
    by (simp add: lines_no_drift groups_eval)
  have b: "\<exists>l\<in>set (splitlines log_no_centre). drift_groups l \<noteq> None"
    by (simp add: lines_no_centre groups_eval)
  from drift_check [OF headers_valid(4) scan_no_drift] a
    drift_check [OF headers_valid(6) scan_no_centre] b
  show ?thesis
    using headers_valid scan_no_drift
    by (simp add: lines_no_drift lines_no_centre groups_eval)
qed

subsection \<open>A log without wafer centre\<close>

text \<open>
  C8, as stated: a log with a valid header, a drift line, a block line and no wafer-centre
  line makes position normalisation raise the error of indexing the empty wafer centre.
  The log \<open>log_drift_before_date\<close> refutes it: it is such a log, but its drift line comes
  before any date line, so the scan raises NameError on \<open>dyear\<close> and normalisation is never
  reached.
\<close>

theorem no_centre_but_name_error:
  "valid_header log_drift_before_date
   \<and> splitlines log_drift_before_date =
       [''JMAN LOGFILE'', ''cal drift 23:58 ; 1_nm,2_nm 3_nm/min,4_nm/min'',
        ''block: 2 Abs coord: 7_mm,8_mm'']
   \<and> drift_groups ''cal drift 23:58 ; 1_nm,2_nm 3_nm/min,4_nm/min'' \<noteq> None
   \<and> position_groups ''block: 2 Abs coord: 7_mm,8_mm'' \<noteq> None
   \<and> centre_groups ''JMAN LOGFILE'' = None
   \<and> centre_groups ''cal drift 23:58 ; 1_nm,2_nm 3_nm/min,4_nm/min'' = None
   \<and> centre_groups ''block: 2 Abs coord: 7_mm,8_mm'' = None
   \<and> run log_drift_before_date = ([], Raised NameError)"
  by (simp add: headers_valid lines_drift_before_date groups_eval run_drift_before_date)

lemma set_map_filter: "set (List.map_filter f xs) = {y. \<exists>x\<in>set xs. f x = Some y}"
  unfolding List.map_filter_def by force

text \<open>
  C8, amended: a log with a valid header, a drift line, a block line and no wafer-centre
  line makes the run end in an uncaught exception with nothing printed and nothing plotted;
  when the scan of the lines completes, the exception is the IndexError of indexing the
  empty wafer centre in position normalisation.
\<close>

theorem no_centre_raises:
  assumes "valid_header content"
    and "\<exists>l\<in>set (splitlines content). drift_groups l \<noteq> None"
    and "\<exists>l\<in>set (splitlines content). position_groups l \<noteq> None"
    and "\<forall>l\<in>set (splitlines content). centre_groups l = None"
  shows "(\<exists>e. run content = ([], Raised e))
       \<and> (\<forall>st. scan_lines (splitlines content) initial_state = Inr st \<longrightarrow>
             run content = ([], Raised IndexError))"
proof (cases "scan_lines (splitlines content) initial_state")
  case (Inl f)
  obtain e out where f: "f = (e, out)" by (cases f)
  then have "scan_lines (splitlines content) initial_state = Inl (e, out)" using Inl by simp
  from scan_lines_fail_quietly [OF assms(4) this] have "out = []"
    by (simp add: initial_state_def)
  then have "run content = ([], Raised e)"
    using assms(1) Inl f by (simp add: run_def after_header_def)
  then show ?thesis using Inl by simp
next
  case (Inr st)
  let ?ls = "splitlines content"
  have found: "drift_data_found st"
    using scan_lines_found [OF Inr] assms(2) by simp
  have quiet: "wafer_centre st = [] \<and> printed st = []"
    using scan_lines_no_centre [OF assms(4) Inr] by (simp add: initial_state_def)
  have blocks: "drift_pos_data st = List.map_filter block_of_line ?ls"
    and conv: "\<forall>l\<in>set ?ls. position_groups l \<noteq> None \<longrightarrow> block_of_line l \<noteq> None"
    using scan_lines_blocks [OF Inr] by (simp_all add: initial_state_def)
  from assms(3) conv obtain l b where "l \<in> set ?ls" "block_of_line l = Some b" by auto
  then have "b \<in> set (drift_pos_data st)"
    unfolding blocks by (auto simp: set_map_filter)
  then have ne: "drift_pos_data st \<noteq> []" by auto
  have "\<forall>b\<in>set (drift_pos_data st). \<not> has_nan b"
  proof
    fix b assume "b \<in> set (drift_pos_data st)"
    then obtain l where "block_of_line l = Some b"
      unfolding blocks set_map_filter by blast
    then show "\<not> has_nan b" by (rule block_of_line_no_nan)
  qed
  then have "\<not> list_ex has_nan (drift_pos_data st)"
    by (simp add: list_ex_iff)
  then have s: "sorted_py (drift_pos_data st) = Some (foldr insort_py (drift_pos_data st) [])"
    by (simp add: sorted_py_def)
  have "length (foldr insort_py (drift_pos_data st) []) \<noteq> 0" using ne by simp
  then obtain x xs where "foldr insort_py (drift_pos_data st) [] = x # xs"
    by (cases "foldr insort_py (drift_pos_data st) []") auto
  then have "relative_drift_pos_data [] (foldr insort_py (drift_pos_data st) []) = Inl IndexError"
    by (cases x) simp
  then have "normalise st = ([], Raised IndexError)"
    using s quiet by (simp add: normalise_def)
  then have "run content = ([], Raised IndexError)"
    using assms(1) Inr found by (simp add: run_def after_header_def after_scan_def)
  then show ?thesis using Inr by simp
qed

theorem no_centre_raises_witness:
  "valid_header log_no_centre
   \<and> splitlines log_no_centre =
       [''JMAN LOGFILE'', ''Thu Nov 14 17:30:26 AEST 2024'',
        ''cal drift 23:58 ; 1_nm,2_nm 3_nm/min,4_nm/min'', ''block: 2 Abs coord: 7_mm,8_mm'']
   \<and> drift_groups ''cal drift 23:58 ; 1_nm,2_nm 3_nm/min,4_nm/min''
       = Some (''23'', ''58'', ''3'', ''4'')
   \<and> position_groups ''block: 2 Abs coord: 7_mm,8_mm'' = Some (''2'', ''7'', ''8'')
   \<and> centre_groups ''JMAN LOGFILE'' = None
   \<and> centre_groups ''Thu Nov 14 17:30:26 AEST 2024'' = None
   \<and> centre_groups ''cal drift 23:58 ; 1_nm,2_nm 3_nm/min,4_nm/min'' = None
   \<and> centre_groups ''block: 2 Abs coord: 7_mm,8_mm'' = None
   \<and> scan_lines (splitlines log_no_centre) initial_state =
       Inr \<lparr>wafer_centre = [], size_xy = None,
            date_fields = Some (''2024'', ''Nov'', ''14''),
            run_label = Some (''2024-Nov-14'', ''17:30:26''),
            previous_timestamp = Some \<lparr>ordinal = 739204, minute_of_day = 1438\<rparr>,
            drift_data_found = True,
            timestamps = [\<lparr>ordinal = 739204, minute_of_day = 1438\<rparr>],
            dxdt_values = [Fin 3], dydt_values = [Fin 4],
            drift_pos_data = [(2, Fin 7, Fin 8)], printed = []\<rparr>
   \<and> run log_no_centre = ([], Raised IndexError)"
proof -
  have a: "\<exists>l\<in>set (splitlines log_no_centre). drift_groups l \<noteq> None"
    and b: "\<exists>l\<in>set (splitlines log_no_centre). position_groups l \<noteq> None"
    and c: "\<forall>l\<in>set (splitlines log_no_centre). centre_groups l = None"
    by (simp_all add: lines_no_centre groups_eval)
  from no_centre_raises [OF headers_valid(6) a b c] show ?thesis
    using headers_valid scan_no_centre by (simp add: lines_no_centre groups_eval)
qed

subsection \<open>The timestamps\<close>

text \<open>What a line does to the timestamps.\<close>

lemma scan_line_sample:
  assumes "scan_line l st = Inr st'"
  shows "date_fields st' = fields_after (date_fields st) l"
    and "drift_groups l = None \<Longrightarrow>
           timestamps st' = timestamps st \<and> previous_timestamp st' = previous_timestamp st"
    and "drift_groups l = Some (hour, minute, dxdt, dydt) \<Longrightarrow>
           \<exists>dyear dmonth dday cand t.
             fields_after (date_fields st) l = Some (dyear, dmonth, dday)
             \<and> strptime dyear dmonth dday hour minute = Some cand
             \<and> day_rollover (previous_timestamp st) cand = Inr t
             \<and> timestamps st' = timestamps st @ [t] \<and> previous_timestamp st' = Some t"
proof -
  from assms obtain s1 s2 s3 where
    c: "scan_centre l st = Inr s1" and d: "scan_date l s1 = Inr s2" and
    r: "scan_drift l s2 = Inr s3" and p: "scan_position l s3 = Inr st'"
    using scan_line_steps by blast
  note kc = scan_centre_keeps [OF c] and kd = scan_date_keeps [OF d]
    and kr = scan_drift_keeps [OF r] and kp = scan_position_keeps [OF p]
  show "date_fields st' = fields_after (date_fields st) l"
    using kc kd kr kp by simp
  show "timestamps st' = timestamps st \<and> previous_timestamp st' = previous_timestamp st"
    if "drift_groups l = None"
    using that scan_drift_result [OF r] kc kd kp by auto
  show "\<exists>dyear dmonth dday cand t.
             fields_after (date_fields st) l = Some (dyear, dmonth, dday)
             \<and> strptime dyear dmonth dday hour minute = Some cand
             \<and> day_rollover (previous_timestamp st) cand = Inr t
             \<and> timestamps st' = timestamps st @ [t] \<and> previous_timestamp st' = Some t"
    if g: "drift_groups l = Some (hour, minute, dxdt, dydt)"
  proof -
    from scan_drift_result [OF r] g have "drift_sample s2 (hour, minute, dxdt, dydt) = Inr s3"
      by auto
    from drift_sample_result [OF this] obtain dyear dmonth dday cand t dx dy where
      f: "date_fields s2 = Some (dyear, dmonth, dday)" and
      s: "strptime dyear dmonth dday hour minute = Some cand" and
      ro: "day_rollover (previous_timestamp s2) cand = Inr t" and
      s3: "s3 = s2\<lparr>drift_data_found := True, previous_timestamp := Some t,
              timestamps := timestamps s2 @ [t],
              dxdt_values := dxdt_values s2 @ [dx], dydt_values := dydt_values s2 @ [dy]\<rparr>"
      by blast
    have "fields_after (date_fields st) l = Some (dyear, dmonth, dday)" using f kc kd by simp
    moreover have "day_rollover (previous_timestamp st) cand = Inr t" using ro kc kd by simp
    moreover have "timestamps st' = timestamps st @ [t] \<and> previous_timestamp st' = Some t"
      using s3 kc kd kp by simp
    ultimately show ?thesis using s by blast
  qed
qed

text \<open>
  C1, as stated: after a sample at 23:58 a sample at 00:02 gets a timestamp exactly four
  minutes later.  The log \<open>log_two_midnights\<close> refutes it.  It has one date line and the
  samples 23:59, 00:01, 23:58 and 00:02.  Every candidate is built on the day of the date
  line; the second is moved on by a day, and so are the third and the fourth, each by one
  day only.  The sample at 23:58 and the sample at 00:02 after it get timestamps on the same
  day, the second 1436 minutes before the first.
\<close>

theorem second_midnight_lost:
  "drift_groups (splitlines log_two_midnights ! 4) = Some (''23'', ''58'', ''3'', ''4'')
   \<and> drift_groups (splitlines log_two_midnights ! 5) = Some (''00'', ''02'', ''5'', ''6'')
   \<and> scan_lines (splitlines log_two_midnights) initial_state =
       Inr \<lparr>wafer_centre = [], size_xy = None,
            date_fields = Some (''2024'', ''Nov'', ''14''),
            run_label = Some (''2024-Nov-14'', ''17:30:26''),
            previous_timestamp = Some \<lparr>ordinal = 739205, minute_of_day = 2\<rparr>,
            drift_data_found = True,
            timestamps = [\<lparr>ordinal = 739204, minute_of_day = 1439\<rparr>,
                          \<lparr>ordinal = 739205, minute_of_day = 1\<rparr>,
                          \<lparr>ordinal = 739205, minute_of_day = 1438\<rparr>,
                          \<lparr>ordinal = 739205, minute_of_day = 2\<rparr>],
            dxdt_values = [Fin 3, Fin 3, Fin 3, Fin 5],
            dydt_values = [Fin 4, Fin 4, Fin 4, Fin 6],
            drift_pos_data = [], printed = []\<rparr>
   \<and> minutes_between \<lparr>ordinal = 739205, minute_of_day = 1438\<rparr>
         \<lparr>ordinal = 739205, minute_of_day = 2\<rparr> = - 1436"
proof -
  have g: "drift_groups (splitlines log_two_midnights ! 4) = Some (''23'', ''58'', ''3'', ''4'')"
    "drift_groups (splitlines log_two_midnights ! 5) = Some (''00'', ''02'', ''5'', ''6'')"
    by (simp_all add: lines_two_midnights groups_eval)
  show ?thesis
    using g scan_two_midnights by (simp add: minutes_between_def)
qed

text \<open>
  C1, amended: at a drift line the candidate timestamp is built by \<open>strptime\<close> from the
  date fields last seen (up to and with the line itself) and the hour and minute of the
  match; a \<open>datetime\<close> of the embedding has seconds 0.  The candidate is appended as it is,
  unless it lies strictly before the timestamp of the previous sample: then its day is moved
  on by one.  The timestamp appended is the new previous timestamp.  After a sample whose
  timestamp is at 23:58 a sample at 00:02 gets a timestamp exactly four minutes later when
  its candidate lies on the day of that timestamp or on the next day.
\<close>

theorem timestamp_reconstruction:
  assumes "scan_line l st = Inr st'"
    and "drift_groups l = Some (hour, minute, dxdt, dydt)"
  shows "\<exists>dyear dmonth dday cand t.
           date_fields st' = Some (dyear, dmonth, dday)
           \<and> fields_after (date_fields st) l = Some (dyear, dmonth, dday)
           \<and> strptime dyear dmonth dday hour minute = Some cand
           \<and> t = (if \<exists>p. previous_timestamp st = Some p \<and> dt_less cand p
                  then cand\<lparr>ordinal := ordinal cand + 1\<rparr> else cand)
           \<and> timestamps st' = timestamps st @ [t]
           \<and> previous_timestamp st' = Some t
           \<and> (\<forall>p. previous_timestamp st = Some p \<and> minute_of_day p = 23 * 60 + 58
                  \<and> minute_of_day cand = 2
                  \<and> (ordinal cand = ordinal p \<or> ordinal cand = ordinal p + 1)
                \<longrightarrow> minutes_between p t = 4)"
proof -
  from scan_line_sample(3) [OF assms] obtain dyear dmonth dday cand t where
    f: "fields_after (date_fields st) l = Some (dyear, dmonth, dday)" and
    s: "strptime dyear dmonth dday hour minute = Some cand" and
    ro: "day_rollover (previous_timestamp st) cand = Inr t" and
    ts: "timestamps st' = timestamps st @ [t]" "previous_timestamp st' = Some t"
    by blast
  have t: "t = (if \<exists>p. previous_timestamp st = Some p \<and> dt_less cand p
                then cand\<lparr>ordinal := ordinal cand + 1\<rparr> else cand)"
    using ro by (auto simp: day_rollover_def add_day_def split: option.splits if_splits)
  have four: "minutes_between p t = 4"
    if "previous_timestamp st = Some p \<and> minute_of_day p = 23 * 60 + 58
        \<and> minute_of_day cand = 2 \<and> (ordinal cand = ordinal p \<or> ordinal cand = ordinal p + 1)"
    for p
    using that t by (auto simp: minutes_between_def dt_less_def)
  have "date_fields st' = Some (dyear, dmonth, dday)"
    using scan_line_sample(1) [OF assms(1)] f by simp
  then show ?thesis using f s t ts four by blast
qed

theorem timestamp_reconstruction_witness:
  "scan_line ''cal drift 00:02 ; 1_nm,2_nm 5_nm/min,6_nm/min''
     \<lparr>wafer_centre = [], size_xy = None,
      date_fields = Some (''2024'', ''Nov'', ''14''),
      run_label = Some (''2024-Nov-14'', ''17:30:26''),
      previous_timestamp = Some \<lparr>ordinal = 739204, minute_of_day = 1438\<rparr>,
      drift_data_found = True,
      timestamps = [\<lparr>ordinal = 739204, minute_of_day = 1438\<rparr>],
      dxdt_values = [Fin 3], dydt_values = [Fin 4],
      drift_pos_data = [], printed = []\<rparr>
   = Inr \<lparr>wafer_centre = [], size_xy = None,
      date_fields = Some (''2024'', ''Nov'', ''14''),
      run_label = Some (''2024-Nov-14'', ''17:30:26''),
      previous_timestamp = Some \<lparr>ordinal = 739205, minute_of_day = 2\<rparr>,
      drift_data_found = True,
      timestamps = [\<lparr>ordinal = 739204, minute_of_day = 1438\<rparr>,
                    \<lparr>ordinal = 739205, minute_of_day = 2\<rparr>],
      dxdt_values = [Fin 3, Fin 5], dydt_values = [Fin 4, Fin 6],
      drift_pos_data = [], printed = []\<rparr>
   \<and> drift_groups ''cal drift 00:02 ; 1_nm,2_nm 5_nm/min,6_nm/min''
       = Some (''00'', ''02'', ''5'', ''6'')
   \<and> strptime ''2024'' ''Nov'' ''14'' ''00'' ''02''
       = Some \<lparr>ordinal = 739204, minute_of_day = 2\<rparr>
   \<and> minutes_between \<lparr>ordinal = 739204, minute_of_day = 1438\<rparr>
         \<lparr>ordinal = 739205, minute_of_day = 2\<rparr> = 4"
proof -
  let ?st = "\<lparr>wafer_centre = [], size_xy = None,
      date_fields = Some (''2024'', ''Nov'', ''14''),
      run_label = Some (''2024-Nov-14'', ''17:30:26''),
      previous_timestamp = Some \<lparr>ordinal = 739204, minute_of_day = 1438\<rparr>,
      drift_data_found = True,
      timestamps = [\<lparr>ordinal = 739204, minute_of_day = 1438\<rparr>],
      dxdt_values = [Fin 3], dydt_values = [Fin 4],
      drift_pos_data = [], printed = []\<rparr>"
  let ?st' = "\<lparr>wafer_centre = [], size_xy = None,
      date_fields = Some (''2024'', ''Nov'', ''14''),
      run_label = Some (''2024-Nov-14'', ''17:30:26''),
      previous_timestamp = Some \<lparr>ordinal = 739205, minute_of_day = 2\<rparr>,
      drift_data_found = True,
      timestamps = [\<lparr>ordinal = 739204, minute_of_day = 1438\<rparr>,
                    \<lparr>ordinal = 739205, minute_of_day = 2\<rparr>],
      dxdt_values = [Fin 3, Fin 5], dydt_values = [Fin 4, Fin 6],
      drift_pos_data = [], printed = []\<rparr>"
  have a: "scan_line ''cal drift 00:02 ; 1_nm,2_nm 5_nm/min,6_nm/min'' ?st = Inr ?st'"
    by (simp add: line_eval sample_eval)
  have b: "drift_groups ''cal drift 00:02 ; 1_nm,2_nm 5_nm/min,6_nm/min''
             = Some (''00'', ''02'', ''5'', ''6'')"
    by (simp add: groups_eval)
  from timestamp_reconstruction [OF a b] a b show ?thesis
    by (simp add: strptime_eval minutes_between_def)
qed

text \<open>The timestamps of a completed scan are the loop's treatment of the candidates.\<close>

lemma scan_lines_timestamps:
  "scan_lines ls st = Inr st' \<Longrightarrow>
   \<exists>cs ts. candidates (date_fields st) ls = map Some cs
     \<and> reconstruct (previous_timestamp st) cs = Inr ts
     \<and> timestamps st' = timestamps st @ ts
     \<and> previous_timestamp st' = (if ts = [] then previous_timestamp st else Some (last ts))"
proof (induction ls arbitrary: st)
  case Nil
  then show ?case by simp
next
  case (Cons l ls)
  from Cons.prems obtain s where l: "scan_line l st = Inr s" and r: "scan_lines ls s = Inr st'"
    by (auto split: sum.splits)
  from Cons.IH [OF r] obtain cs ts where
    c: "candidates (date_fields s) ls = map Some cs" and
    rc: "reconstruct (previous_timestamp s) cs = Inr ts" and
    t: "timestamps st' = timestamps s @ ts" and
    p: "previous_timestamp st' = (if ts = [] then previous_timestamp s else Some (last ts))"
    by blast
  have df: "date_fields s = fields_after (date_fields st) l"
    using scan_line_sample(1) [OF l] .
  show ?case
  proof (cases "drift_groups l")
    case None
    then have k: "timestamps s = timestamps st \<and> previous_timestamp s = previous_timestamp st"
      using scan_line_sample(2) [OF l] by simp
    have "candidates (date_fields st) (l # ls) = map Some cs"
      using None c df by (simp add: candidate_def)
    then show ?thesis using rc t p k by auto
  next
    case (Some g)
    obtain hour minute dxdt dydt where g: "g = (hour, minute, dxdt, dydt)" by (cases g)
    from scan_line_sample(3) [OF l] Some g obtain dyear dmonth dday cand t0 where
      f: "fields_after (date_fields st) l = Some (dyear, dmonth, dday)" and
      s: "strptime dyear dmonth dday hour minute = Some cand" and
      ro: "day_rollover (previous_timestamp st) cand = Inr t0" and
      ts: "timestamps s = timestamps st @ [t0]" "previous_timestamp s = Some t0"
      by blast
    have 1: "candidates (date_fields st) (l # ls) = map Some (cand # cs)"
      using Some g f s c df by (simp add: candidate_def)
    have 2: "reconstruct (previous_timestamp st) (cand # cs) = Inr (t0 # ts)"
      using ro rc ts by simp
    have 3: "timestamps st' = timestamps st @ (t0 # ts)" using t ts by simp
    have 4: "previous_timestamp st' = Some (last (t0 # ts))" using p ts by simp
    show ?thesis using 1 2 3 4 by (metis list.distinct(1))
  qed
qed

text \<open>The order of the timestamps.\<close>

lemma dt_le_refl [simp]: "dt_le a a"
  by (simp add: dt_le_def dt_less_def)

lemma dt_le_trans: "dt_le a b \<Longrightarrow> dt_le b c \<Longrightarrow> dt_le a c"
  by (auto simp: dt_le_def dt_less_def)

lemma sorted_dt_Cons:
  "dt_le a b \<Longrightarrow> sorted_wrt dt_le (b # ts) \<Longrightarrow> sorted_wrt dt_le (a # b # ts)"
  using dt_le_trans by auto

text \<open>
  Once a timestamp lies on the day after the candidates', every later candidate is moved to
  that day.
\<close>

lemma reconstruct_after_rollover:
  "\<forall>c\<in>set cs. ordinal c = d \<Longrightarrow> ordinal p = d + 1 \<Longrightarrow>
   reconstruct (Some p) cs = Inr ts \<Longrightarrow>
   ts = map (\<lambda>c. c\<lparr>ordinal := d + 1\<rparr>) cs"
proof (induction cs arbitrary: p ts)
  case Nil
  then show ?case by simp
next
  case (Cons c cs)
  have "dt_less c p" using Cons.prems(1,2) by (simp add: dt_less_def)
  then have r: "day_rollover (Some p) c = add_day c" by (simp add: day_rollover_def)
  from Cons.prems(3) r obtain t ts' where
    a: "add_day c = Inr t" and rc: "reconstruct (Some t) cs = Inr ts'" and ts: "ts = t # ts'"
    by (auto split: sum.splits)
  have t: "t = c\<lparr>ordinal := d + 1\<rparr>"
    using a Cons.prems(1) by (auto simp: add_day_def split: if_splits)
  then have "ordinal t = d + 1" by simp
  from Cons.IH [OF _ this rc] Cons.prems(1) have "ts' = map (\<lambda>c. c\<lparr>ordinal := d + 1\<rparr>) cs"
    by simp
  then show ?case using ts t by simp
qed

lemma sorted_same_day:
  "descents (m # map minute_of_day cs) = 0 \<Longrightarrow> minute_of_day a = m \<Longrightarrow> ordinal a = e \<Longrightarrow>
   sorted_wrt dt_le (a # map (\<lambda>c. c\<lparr>ordinal := e\<rparr>) cs)"
proof (induction cs arbitrary: a m)
  case Nil
  then show ?case by simp
next
  case (Cons c cs)
  from Cons.prems(1) have le: "m \<le> minute_of_day c"
    and rest: "descents (minute_of_day c # map minute_of_day cs) = 0"
    by (auto split: if_splits)
  let ?c = "c\<lparr>ordinal := e\<rparr>"
  have s: "sorted_wrt dt_le (?c # map (\<lambda>c. c\<lparr>ordinal := e\<rparr>) cs)"
    using Cons.IH [OF rest, of ?c] by simp
  have a: "dt_le a ?c" using le Cons.prems(2,3) by (simp add: dt_le_def dt_less_def)
  show ?case using sorted_dt_Cons [OF a s] by simp
qed

lemma reconstruct_sorted_from:
  "\<forall>c\<in>set cs. ordinal c = d \<Longrightarrow> ordinal p = d \<Longrightarrow>
   descents (minute_of_day p # map minute_of_day cs) \<le> 1 \<Longrightarrow>
   reconstruct (Some p) cs = Inr ts \<Longrightarrow> sorted_wrt dt_le (p # ts)"
proof (induction cs arbitrary: p ts)
  case Nil
  then show ?case by simp
next
  case (Cons c cs)
  have dc: "ordinal c = d" using Cons.prems(1) by simp
  show ?case
  proof (cases "minute_of_day c < minute_of_day p")
    case True
    then have "dt_less c p" using dc Cons.prems(2) by (simp add: dt_less_def)
    then have r: "day_rollover (Some p) c = add_day c" by (simp add: day_rollover_def)
    from Cons.prems(4) r obtain t ts' where
      a: "add_day c = Inr t" and rc: "reconstruct (Some t) cs = Inr ts'" and ts: "ts = t # ts'"
      by (auto split: sum.splits)
    have t: "t = c\<lparr>ordinal := d + 1\<rparr>"
      using a dc by (auto simp: add_day_def split: if_splits)
    then have ot: "ordinal t = d + 1" by simp
    have ts': "ts' = map (\<lambda>c. c\<lparr>ordinal := d + 1\<rparr>) cs"
      using reconstruct_after_rollover [OF _ ot rc] Cons.prems(1) by simp
    have "descents (minute_of_day c # map minute_of_day cs) = 0"
      using Cons.prems(3) True by simp
    then have s: "sorted_wrt dt_le (t # ts')"
      unfolding ts' using sorted_same_day [of "minute_of_day c" cs t "d + 1"] t by simp
    have "dt_le p t" using ot Cons.prems(2) by (simp add: dt_le_def dt_less_def)
    from sorted_dt_Cons [OF this s] show ?thesis using ts by simp
  next
    case False
    then have nl: "\<not> dt_less c p" using dc Cons.prems(2) by (simp add: dt_less_def)
    then have r: "day_rollover (Some p) c = Inr c" by (simp add: day_rollover_def)
    from Cons.prems(4) r obtain ts' where
      rc: "reconstruct (Some c) cs = Inr ts'" and ts: "ts = c # ts'"
      by (auto split: sum.splits)
    have "descents (minute_of_day c # map minute_of_day cs) \<le> 1"
      using Cons.prems(3) False by simp
    from Cons.IH [OF _ dc this rc] Cons.prems(1) have s: "sorted_wrt dt_le (c # ts')" by simp
    have "dt_le p c" using nl by (simp add: dt_le_def)
    from sorted_dt_Cons [OF this s] show ?thesis using ts by simp
  qed
qed

text \<open>
  C2.  When the scan of a log completes, the candidates of its drift samples all lie on one
  day (a single date context) and their times of day decrease at most once from one sample
  to the next, the corrected timestamps are non-decreasing in their order in the file.
\<close>

theorem timestamps_monotone:
  assumes "scan_lines ls initial_state = Inr st"
    and "candidates None ls = map Some cs"
    and "\<forall>c\<in>set cs. ordinal c = d"
    and "descents (map minute_of_day cs) \<le> 1"
  shows "sorted_wrt dt_le (timestamps st)"
proof -
  from scan_lines_timestamps [OF assms(1)] obtain cs' ts where
    c: "candidates None ls = map Some cs'" and
    r: "reconstruct None cs' = Inr ts" and
    t: "timestamps st = ts"
    by (auto simp: initial_state_def)
  have "map Some cs' = map Some cs" using c assms(2) by simp
  then have cs: "cs' = cs" by (simp add: inj_map_eq_map)
  show ?thesis
  proof (cases cs)
    case Nil
    then show ?thesis using r t cs by simp
  next
    case (Cons c rest)
    from r cs Cons obtain ts' where
      rc: "reconstruct (Some c) rest = Inr ts'" and ts: "ts = c # ts'"
      by (auto simp: day_rollover_def split: sum.splits)
    have "sorted_wrt dt_le (c # ts')"
      using reconstruct_sorted_from [OF _ _ _ rc, of d] assms(3,4) Cons by simp
    then show ?thesis using t ts by simp
  qed
qed

theorem timestamps_monotone_witness:
  "scan_lines (splitlines log_two_centres) initial_state =
     Inr \<lparr>wafer_centre = [Fin 5, Fin 6], size_xy = Some (Fin 8, Fin 8),
          date_fields = Some (''2024'', ''Nov'', ''14''),
          run_label = Some (''2024-Nov-14'', ''17:30:26''),
          previous_timestamp = Some \<lparr>ordinal = 739205, minute_of_day = 2\<rparr>,
          drift_data_found = True,
          timestamps = [\<lparr>ordinal = 739204, minute_of_day = 1438\<rparr>,
                        \<lparr>ordinal = 739205, minute_of_day = 2\<rparr>],
          dxdt_values = [Fin 3, Fin 5], dydt_values = [Fin 4, Fin 6],
          drift_pos_data = [(2, Fin 7, Fin 8), (1, Fin 9, Fin 5)],
          printed = [Print_centre (Fin 1) (Fin 2), Print_size (Fin 3) (Fin 4),
                     Print_centre (Fin 5) (Fin 6), Print_size (Fin 8) (Fin 8)]\<rparr>
   \<and> candidates None (splitlines log_two_centres) =
       map Some [\<lparr>ordinal = 739204, minute_of_day = 1438\<rparr>,
                 \<lparr>ordinal = 739204, minute_of_day = 2\<rparr>]
   \<and> descents (map minute_of_day [\<lparr>ordinal = 739204, minute_of_day = 1438\<rparr>,
                                   \<lparr>ordinal = 739204, minute_of_day = 2\<rparr>]) = 1
   \<and> sorted_wrt dt_le [\<lparr>ordinal = 739204, minute_of_day = 1438\<rparr>,
                        \<lparr>ordinal = 739205, minute_of_day = 2\<rparr>]"
proof -
  let ?cs = "[\<lparr>ordinal = 739204, minute_of_day = 1438\<rparr>, \<lparr>ordinal = 739204, minute_of_day = 2\<rparr>]"
  have c: "candidates None (splitlines log_two_centres) = map Some ?cs"
    by (simp add: lines_two_centres candidate_def fields_after_def groups_eval strptime_eval)
  have d: "\<forall>c\<in>set ?cs. ordinal c = 739204" by simp
  have e: "descents (map minute_of_day ?cs) \<le> 1" by simp
  from timestamps_monotone [OF scan_two_centres c d e] c show ?thesis
    using scan_two_centres by simp
qed

subsection \<open>The relative positions\<close>







lemma relative_is_map:
  "relative_drift_pos_data [c0, c1] bs = Inr (map (\<lambda>(n, x, y). (n, fsub x c0, fsub y c1)) bs)"
  by (induction bs) auto













subsection \<open>Rounding is monotone\<close>

lemma pow2_powi: "pow2 i = 2 powi i"
  by (simp add: pow2_def power_int_def inverse_eq_divide power_one_over)

lemma pow2_pos [simp]: "0 < pow2 i"
  by (simp add: pow2_powi)

lemma pow2_nonneg [simp]: "0 \<le> pow2 i"
  using pow2_pos [of i] by linarith

lemma pow2_nonzero [simp]: "pow2 i \<noteq> 0"
  using pow2_pos [of i] by linarith

lemma pow2_add: "pow2 (i + j) = pow2 i * pow2 j"
  by (simp add: pow2_powi power_int_add)

lemma pow2_mono: "i \<le> j \<Longrightarrow> pow2 i \<le> pow2 j"
  by (simp add: pow2_powi power_int_increasing)

lemma pow2_nat: "0 \<le> i \<Longrightarrow> pow2 i = of_int (2 ^ nat i)"
  by (simp add: pow2_def)

lemma bits_bounds:
  "0 < n \<Longrightarrow> 1 \<le> bits n \<and> 2 ^ nat (bits n - 1) \<le> n \<and> n < 2 ^ nat (bits n)"
proof (induction n rule: bits.induct)
  case (1 n)
  show ?case
  proof (cases "n = 1")
    case True
    then show ?thesis by (simp add: bits.simps)
  next
    case False
    then have h: "0 < n div 2" using "1.prems" by simp
    have b: "bits n = 1 + bits (n div 2)" using "1.prems" by (subst bits.simps) simp
    from "1.IH" h "1.prems" have ih: "1 \<le> bits (n div 2)"
      "2 ^ nat (bits (n div 2) - 1) \<le> n div 2" "n div 2 < 2 ^ nat (bits (n div 2))"
      by simp_all
    have e: "nat (bits n - 1) = Suc (nat (bits (n div 2) - 1))" using b ih(1) by simp
    have e2: "nat (bits n) = Suc (nat (bits (n div 2)))" using b ih(1) by simp
    have "2 * 2 ^ nat (bits (n div 2) - 1) \<le> n" using ih(2) by linarith
    moreover have "n < 2 * 2 ^ nat (bits (n div 2))" using ih(3) by linarith
    ultimately show ?thesis using b ih(1) e e2 by simp
  qed
qed

lemma flog2_bounds:
  assumes "0 < a"
  shows "pow2 (flog2 a) \<le> a \<and> a < pow2 (flog2 a + 1)"
proof (cases "1 \<le> a")
  case True
  let ?n = "\<lfloor>a\<rfloor>"
  have n: "0 < ?n" using True by simp
  from bits_bounds [OF n] have b: "1 \<le> bits ?n" "2 ^ nat (bits ?n - 1) \<le> ?n" "?n < 2 ^ nat (bits ?n)"
    by simp_all
  have e: "flog2 a = bits ?n - 1" using True by (simp add: flog2_def)
  have "pow2 (flog2 a) = of_int (2 ^ nat (bits ?n - 1))" using e b(1) by (simp add: pow2_nat)
  also have "\<dots> \<le> of_int ?n" using b(2) by (simp only: of_int_le_iff)
  also have "\<dots> \<le> a" by simp
  finally have lo: "pow2 (flog2 a) \<le> a" .
  have "?n + 1 \<le> 2 ^ nat (bits ?n)" using b(3) by simp
  then have "(of_int (?n + 1) :: rat) \<le> of_int (2 ^ nat (bits ?n))" by (simp only: of_int_le_iff)
  moreover have "a < of_int (?n + 1)" by linarith
  moreover have "pow2 (flog2 a + 1) = of_int (2 ^ nat (bits ?n))" using e b(1) by (simp add: pow2_nat)
  ultimately have "a < pow2 (flog2 a + 1)" by simp
  then show ?thesis using lo by simp
next
  case False
  let ?N = "\<lceil>1 / a\<rceil>"
  have inv: "1 < 1 / a" using False assms by simp
  then have N: "0 < ?N - 1" by linarith
  from bits_bounds [OF N] have b: "1 \<le> bits (?N - 1)" "2 ^ nat (bits (?N - 1) - 1) \<le> ?N - 1"
    "?N - 1 < 2 ^ nat (bits (?N - 1))" by simp_all
  let ?k = "bits (?N - 1)"
  have e: "flog2 a = - ?k" using False by (simp add: flog2_def)
  have "?N \<le> 2 ^ nat ?k" using b(3) by simp
  then have "(of_int ?N :: rat) \<le> of_int (2 ^ nat ?k)" by (simp only: of_int_le_iff)
  moreover have "1 / a \<le> of_int ?N" by simp
  moreover have "(of_int (2 ^ nat ?k) :: rat) = 2 ^ nat ?k" by simp
  ultimately have "1 / a \<le> 2 ^ nat ?k" by linarith
  then have "1 \<le> 2 ^ nat ?k * a" using assms by (simp add: field_simps)
  then have lo: "pow2 (- ?k) \<le> a" using b(1) by (simp add: pow2_def field_simps)
  have "(of_int (2 ^ nat (?k - 1)) :: rat) \<le> of_int (?N - 1)" using b(2) by (simp only: of_int_le_iff)
  moreover have "of_int (?N - 1) < 1 / a" by linarith
  moreover have "(of_int (2 ^ nat (?k - 1)) :: rat) = 2 ^ nat (?k - 1)" by simp
  ultimately have "2 ^ nat (?k - 1) < 1 / a" by linarith
  then have "2 ^ nat (?k - 1) * a < 1" using assms by (simp add: field_simps)
  then have hi: "a < 1 / 2 ^ nat (?k - 1)" by (simp add: field_simps)
  have "pow2 (- ?k + 1) = 1 / 2 ^ nat (?k - 1)"
  proof (cases "?k = 1")
    case True
    then show ?thesis by (simp add: pow2_def)
  next
    case False
    then have "- ?k + 1 < 0" using b(1) by simp
    moreover have "nat (- (- ?k + 1)) = nat (?k - 1)" by simp
    ultimately show ?thesis by (simp add: pow2_def)
  qed
  then show ?thesis using lo hi e by simp
qed

lemma flog2_mono:
  assumes "0 < a" "a \<le> b"
  shows "flog2 a \<le> flog2 b"
proof (rule ccontr)
  assume "\<not> flog2 a \<le> flog2 b"
  then have "flog2 b + 1 \<le> flog2 a" by simp
  then have "pow2 (flog2 b + 1) \<le> pow2 (flog2 a)" by (rule pow2_mono)
  moreover have "b < pow2 (flog2 b + 1)" using flog2_bounds [of b] assms by simp
  moreover have "pow2 (flog2 a) \<le> a" using flog2_bounds [OF assms(1)] by simp
  ultimately show False using assms(2) by linarith
qed


lemma nearest_even_bounds: "f \<le> nearest_even f d \<and> nearest_even f d \<le> f + 1"
  by (simp add: nearest_even_def)

lemma round_half_even_bounds: "\<lfloor>z\<rfloor> \<le> round_half_even z \<and> round_half_even z \<le> \<lceil>z\<rceil>"
proof -
  have "round_half_even z \<le> \<lceil>z\<rceil>"
  proof (cases "z - of_int \<lfloor>z\<rfloor> < 1 / 2")
    case True
    then have "round_half_even z = \<lfloor>z\<rfloor>" by (simp add: round_half_even_def nearest_even_def)
    then show ?thesis by (simp add: floor_le_ceiling)
  next
    case False
    then have "of_int \<lfloor>z\<rfloor> < z" by linarith
    then have "\<lfloor>z\<rfloor> < \<lceil>z\<rceil>" by (simp add: less_ceiling_iff)
    moreover have "round_half_even z \<le> \<lfloor>z\<rfloor> + 1"
      unfolding round_half_even_def using nearest_even_bounds by blast
    ultimately show ?thesis by linarith
  qed
  moreover have "\<lfloor>z\<rfloor> \<le> round_half_even z"
    unfolding round_half_even_def using nearest_even_bounds by blast
  ultimately show ?thesis by simp
qed

lemma round_half_even_ge:
  assumes "of_int n \<le> z"
  shows "n \<le> round_half_even z"
proof -
  have "n \<le> \<lfloor>z\<rfloor>" using assms by (simp add: le_floor_iff)
  then show ?thesis using round_half_even_bounds [of z] by linarith
qed

lemma round_half_even_le:
  assumes "z \<le> of_int n"
  shows "round_half_even z \<le> n"
proof -
  have "\<lceil>z\<rceil> \<le> n" using assms by (simp add: ceiling_le_iff)
  then show ?thesis using round_half_even_bounds [of z] by linarith
qed

lemma round_half_even_mono:
  assumes "z \<le> z'"
  shows "round_half_even z \<le> round_half_even z'"
proof (cases "\<lfloor>z\<rfloor> = \<lfloor>z'\<rfloor>")
  case True
  have "z - of_int \<lfloor>z\<rfloor> \<le> z' - of_int \<lfloor>z\<rfloor>" using assms by simp
  then show ?thesis using True by (auto simp: round_half_even_def nearest_even_def)
next
  case False
  have "\<lfloor>z\<rfloor> \<le> \<lfloor>z'\<rfloor>" using assms by (rule floor_mono)
  then have "\<lfloor>z\<rfloor> + 1 \<le> \<lfloor>z'\<rfloor>" using False by simp
  moreover have "round_half_even z \<le> \<lfloor>z\<rfloor> + 1"
    unfolding round_half_even_def using nearest_even_bounds by blast
  moreover have "\<lfloor>z'\<rfloor> \<le> round_half_even z'" using round_half_even_bounds by blast
  ultimately show ?thesis by linarith
qed

lemma pow2_diff: "pow2 i / pow2 j = pow2 (i - j)"
proof -
  have "pow2 (i - j) * pow2 j = pow2 i" using pow2_add [of "i - j" j] by simp
  moreover have "pow2 j \<noteq> 0" using pow2_pos [of j] by linarith
  ultimately show ?thesis by (metis nonzero_mult_div_cancel_right)
qed

lemma round_mag_nonneg: "0 < a \<Longrightarrow> 0 \<le> round_mag a q"
proof -
  assume "0 < a"
  then have "of_int 0 \<le> a / pow2 q" by (simp add: zero_le_divide_iff)
  then have "0 \<le> round_half_even (a / pow2 q)" by (rule round_half_even_ge)
  then show ?thesis by (simp add: round_mag_def)
qed

lemma round_mag_mono:
  assumes "0 < a" "a \<le> b"
  shows "round_mag a (max (flog2 a - 52) (- 1074)) \<le> round_mag b (max (flog2 b - 52) (- 1074))"
proof -
  define qa where "qa = max (flog2 a - 52) (- 1074)"
  define qb where "qb = max (flog2 b - 52) (- 1074)"
  have b: "0 < b" using assms by simp
  have ee: "flog2 a \<le> flog2 b" using assms by (rule flog2_mono)
  then have qle: "qa \<le> qb" by (simp add: qa_def qb_def)
  have "round_mag a qa \<le> round_mag b qb"
  proof (cases "qa = qb")
    case True
    have "a / pow2 qa \<le> b / pow2 qa" using assms(2) by (simp add: divide_right_mono)
    then have "round_half_even (a / pow2 qa) \<le> round_half_even (b / pow2 qa)"
      by (rule round_half_even_mono)
    then have "(of_int (round_half_even (a / pow2 qa)) :: rat) \<le> of_int (round_half_even (b / pow2 qa))"
      by (simp only: of_int_le_iff)
    then show ?thesis using True by (simp add: round_mag_def mult_right_mono)
  next
    case False
    then have lt: "qa < qb" using qle by simp
    then have qb: "qb = flog2 b - 52" by (auto simp: qa_def qb_def)
    have qa_le: "qa \<le> flog2 b" using lt qb by simp
    let ?T = "pow2 (flog2 b)"
    have e_lt: "flog2 a + 1 \<le> flog2 b" using lt by (auto simp: qa_def qb_def)
    text \<open>The larger value rounds to at least the power of two below it.\<close>
    have "?T \<le> b" using flog2_bounds [OF b] by simp
    then have "?T / pow2 qb \<le> b / pow2 qb" by (simp add: divide_right_mono)
    moreover have p52: "pow2 52 = of_int (2 ^ 52)" using pow2_nat [of 52] by simp
    moreover have "?T / pow2 qb = pow2 52" using qb by (simp add: pow2_diff)
    ultimately have "of_int (2 ^ 52) \<le> b / pow2 qb" by simp
    then have "2 ^ 52 \<le> round_half_even (b / pow2 qb)" by (rule round_half_even_ge)
    then have "(of_int (2 ^ 52) :: rat) \<le> of_int (round_half_even (b / pow2 qb))"
      by (simp only: of_int_le_iff)
    then have "of_int (2 ^ 52) * pow2 qb \<le> round_mag b qb"
      by (simp add: round_mag_def mult_right_mono del: of_int_power)
    moreover have "of_int (2 ^ 52) * pow2 qb = ?T"
    proof -
      have "pow2 52 * pow2 qb = pow2 (52 + qb)" by (simp add: pow2_add)
      moreover have "52 + qb = flog2 b" using qb by simp
      ultimately show ?thesis using p52 by simp
    qed
    ultimately have lower: "?T \<le> round_mag b qb" by simp
    text \<open>The smaller value rounds to at most that power of two.\<close>
    have "a < pow2 (flog2 a + 1)" using flog2_bounds [OF assms(1)] by simp
    also have "\<dots> \<le> ?T" using e_lt by (rule pow2_mono)
    finally have "a / pow2 qa \<le> ?T / pow2 qa" by (simp add: divide_right_mono)
    moreover have pq: "pow2 (flog2 b - qa) = of_int (2 ^ nat (flog2 b - qa))"
      using qa_le pow2_nat [of "flog2 b - qa"] by simp
    moreover have "?T / pow2 qa = pow2 (flog2 b - qa)" by (simp add: pow2_diff)
    ultimately have "a / pow2 qa \<le> of_int (2 ^ nat (flog2 b - qa))" by simp
    then have "round_half_even (a / pow2 qa) \<le> 2 ^ nat (flog2 b - qa)"
      by (rule round_half_even_le)
    then have "(of_int (round_half_even (a / pow2 qa)) :: rat) \<le> of_int (2 ^ nat (flog2 b - qa))"
      by (simp only: of_int_le_iff)
    then have "round_mag a qa \<le> of_int (2 ^ nat (flog2 b - qa)) * pow2 qa"
      by (simp add: round_mag_def mult_right_mono del: of_int_power)
    moreover have "of_int (2 ^ nat (flog2 b - qa)) * pow2 qa = ?T"
    proof -
      have "pow2 (flog2 b - qa) * pow2 qa = ?T" using pow2_add [of "flog2 b - qa" qa] by simp
      then show ?thesis using pq by simp
    qed
    ultimately have "round_mag a qa \<le> ?T" by simp
    then show ?thesis using lower by simp
  qed
  then show ?thesis by (simp add: qa_def qb_def)
qed


lemma flt_NInf_right [simp]: "\<not> flt x NInf"
  by (cases x) auto

lemma flt_PInf_left [simp]: "\<not> flt PInf y"
  by (cases y) auto

lemma pack_pos_mono: "r \<le> s \<Longrightarrow> \<not> flt (pack True s) (pack True r)"
  by (simp add: pack_def)

lemma pack_neg_mono: "r \<le> s \<Longrightarrow> \<not> flt (pack False r) (pack False s)"
  by (simp add: pack_def)

lemma pack_signs: "0 \<le> r \<Longrightarrow> 0 \<le> s \<Longrightarrow> \<not> flt (pack True s) (pack False r)"
  by (simp add: pack_def)

lemma pack_zero: "0 \<le> r \<Longrightarrow> \<not> flt (Fin 0) (pack False r) \<and> \<not> flt (pack True r) (Fin 0)"
  by (simp add: pack_def)

lemma round_double_mono:
  assumes "x \<le> y"
  shows "\<not> flt (round_double y) (round_double x)"
proof -
  consider "x = 0" "y = 0" | "x = 0" "0 < y" | "x < 0" "y = 0" | "x < 0" "0 < y"
    | "0 < x" "0 < y" | "x < 0" "y < 0"
    using assms by linarith
  then show ?thesis
  proof cases
    case 1
    then show ?thesis by (simp add: round_double_def)
  next
    case 2
    then show ?thesis
      using pack_zero [OF round_mag_nonneg, of y] by (simp add: round_double_def)
  next
    case 3
    then show ?thesis
      using pack_zero [OF round_mag_nonneg, of "- x"] by (simp add: round_double_def)
  next
    case 4
    then show ?thesis
      using pack_signs [OF round_mag_nonneg round_mag_nonneg, of "- x" y]
      by (simp add: round_double_def)
  next
    case 5
    then show ?thesis
      using pack_pos_mono [OF round_mag_mono, of x y] assms by (simp add: round_double_def)
  next
    case 6
    then have "0 < - y" "- y \<le> - x" using assms by simp_all
    from pack_neg_mono [OF round_mag_mono [OF this]] 6 show ?thesis
      by (simp add: round_double_def)
  qed
qed

text \<open>Subtracting one number from two keeps their order, as far as no NaN arises.\<close>

lemma fsub_mono:
  "\<not> flt y x \<Longrightarrow> x \<noteq> NaN \<Longrightarrow> y \<noteq> NaN \<Longrightarrow> fsub x c \<noteq> NaN \<Longrightarrow> fsub y c \<noteq> NaN \<Longrightarrow>
   \<not> flt (fsub y c) (fsub x c)"
  by (cases x; cases y; cases c) (auto simp: round_double_mono)

subsection \<open>The order of the blocks\<close>

lemma feq_iff: "x \<noteq> NaN \<Longrightarrow> y \<noteq> NaN \<Longrightarrow> feq x y = (x = y)"
  by (cases x; cases y) auto

lemma flt_total: "x \<noteq> NaN \<Longrightarrow> y \<noteq> NaN \<Longrightarrow> flt x y \<or> x = y \<or> flt y x"
  by (cases x; cases y) auto

lemma key_lt_iff:
  "\<not> has_nan (n1, x1, y1) \<Longrightarrow> \<not> has_nan (n2, x2, y2) \<Longrightarrow>
   key_lt (n1, x1, y1) (n2, x2, y2) =
     (n1 < n2 \<or> n1 = n2 \<and> (flt x1 x2 \<or> x1 = x2 \<and> flt y1 y2))"
  by (auto simp: feq_iff)

lemma key_le_trans:
  assumes "\<not> has_nan a" "\<not> has_nan b" "\<not> has_nan c"
    and "\<not> key_lt b a" "\<not> key_lt c b"
  shows "\<not> key_lt c a"
proof -
  obtain n1 x1 y1 where a: "a = (n1, x1, y1)" by (cases a)
  obtain n2 x2 y2 where b: "b = (n2, x2, y2)" by (cases b)
  obtain n3 x3 y3 where c: "c = (n3, x3, y3)" by (cases c)
  have nn: "x1 \<noteq> NaN" "y1 \<noteq> NaN" "x2 \<noteq> NaN" "y2 \<noteq> NaN" "x3 \<noteq> NaN" "y3 \<noteq> NaN"
    using assms(1-3) a b c by simp_all
  have ba: "\<not> (n2 < n1 \<or> n2 = n1 \<and> (flt x2 x1 \<or> x2 = x1 \<and> flt y2 y1))"
    using assms(4) a b key_lt_iff [of n2 x2 y2 n1 x1 y1] nn by simp
  have cb: "\<not> (n3 < n2 \<or> n3 = n2 \<and> (flt x3 x2 \<or> x3 = x2 \<and> flt y3 y2))"
    using assms(5) b c key_lt_iff [of n3 x3 y3 n2 x2 y2] nn by simp
  have "\<not> (n3 < n1 \<or> n3 = n1 \<and> (flt x3 x1 \<or> x3 = x1 \<and> flt y3 y1))"
  proof
    assume h: "n3 < n1 \<or> n3 = n1 \<and> (flt x3 x1 \<or> x3 = x1 \<and> flt y3 y1)"
    have n: "n1 \<le> n2" "n2 \<le> n3" using ba cb by auto
    with h have eq: "n1 = n2" "n2 = n3" and h': "flt x3 x1 \<or> x3 = x1 \<and> flt y3 y1" by auto
    have x12: "\<not> flt x2 x1" and x23: "\<not> flt x3 x2" using ba cb eq by auto
    show False
    proof (cases "flt x3 x1")
      case True
      then show False using x12 x23 nn by (metis flt_le_trans flt_asym flt_total)
    next
      case False
      then have e: "x3 = x1" and y: "flt y3 y1" using h' by auto
      have "x1 = x2" using x12 x23 e nn by (metis flt_total)
      then have "\<not> flt y2 y1" "\<not> flt y3 y2" using ba cb eq e by auto
      then show False using y nn by (metis flt_le_trans flt_asym flt_total)
    qed
  qed
  then show ?thesis using a c key_lt_iff [of n3 x3 y3 n1 x1 y1] nn by simp
qed

lemma set_insort_py [simp]: "set (insort_py x ys) = insert x (set ys)"
  by (induction ys) auto

lemma key_lt_asym: "\<not> has_nan a \<Longrightarrow> \<not> has_nan b \<Longrightarrow> key_lt a b \<Longrightarrow> \<not> key_lt b a"
  by (cases a; cases b) (auto simp: feq_iff dest: flt_asym)

lemma sorted_insort_py:
  assumes "\<not> has_nan x" "\<forall>y\<in>set ys. \<not> has_nan y"
    and "sorted_wrt (\<lambda>a b. \<not> key_lt b a) ys"
  shows "sorted_wrt (\<lambda>a b. \<not> key_lt b a) (insort_py x ys)"
  using assms(2,3)
proof (induction ys)
  case Nil
  then show ?case by simp
next
  case (Cons y ys)
  show ?case
  proof (cases "key_lt y x")
    case True
    then have "\<not> key_lt x y" using key_lt_asym assms(1) Cons.prems(1) by simp
    then show ?thesis using True Cons by auto
  next
    case False
    have "\<forall>z\<in>set ys. \<not> key_lt z x"
    proof
      fix z assume z: "z \<in> set ys"
      then have "\<not> key_lt z y" using Cons.prems(2) by simp
      then show "\<not> key_lt z x"
        using key_le_trans [of x y z] False assms(1) Cons.prems(1) z by simp
    qed
    then show ?thesis using False Cons.prems(2) by simp
  qed
qed

lemma sorted_foldr_insort:
  "\<forall>y\<in>set xs. \<not> has_nan y \<Longrightarrow> sorted_wrt (\<lambda>a b. \<not> key_lt b a) (foldr insort_py xs [])"
proof (induction xs)
  case Nil
  then show ?case by simp
next
  case (Cons x xs)
  have s: "set (foldr insort_py xs []) = set xs" by (induction xs) auto
  show ?case using Cons sorted_insort_py [of x "foldr insort_py xs []"] s by simp
qed

text \<open>Sorting a sorted list changes nothing.\<close>

lemma foldr_insort_sorted:
  "sorted_wrt (\<lambda>a b. \<not> key_lt b a) xs \<Longrightarrow> foldr insort_py xs [] = xs"
proof (induction xs)
  case Nil
  then show ?case by simp
next
  case (Cons x xs)
  then have "foldr insort_py xs [] = xs" by simp
  then show ?case using Cons.prems by (cases xs) auto
qed


text \<open>
  C5, as stated: sorting the blocks and subtracting the wafer centre gives a list that is
  sorted already, so that sorting again is the identity.  The log \<open>log_far_centre\<close> refutes
  it.  Its centre is \<open>10 ^ 16\<close> mm in x, its blocks have number 1 and lie at (0, 2) and
  (1, 1).  Sorted by \<open>(block_number, x, y)\<close> the block at (0, 2) comes first.  In floats
  \<open>0 - 10 ^ 16\<close> and \<open>1 - 10 ^ 16\<close> are the same number, so the relative positions tie
  in x, the second sort orders them by y, and the run lists the block at (1, 1) first.
\<close>

theorem second_sort_reorders:
  "List.map_filter block_of_line (splitlines log_far_centre) = [(1, Fin 0, Fin 2), (1, Fin 1, Fin 1)]
   \<and> sorted_py [(1, Fin 0, Fin 2), (1, Fin 1, Fin 1)] = Some [(1, Fin 0, Fin 2), (1, Fin 1, Fin 1)]
   \<and> relative_drift_pos_data [Fin 10000000000000000, Fin 0] [(1, Fin 0, Fin 2), (1, Fin 1, Fin 1)]
       = Inr [(1, Fin (- 10000000000000000), Fin 2), (1, Fin (- 10000000000000000), Fin 1)]
   \<and> sorted_py [(1, Fin (- 10000000000000000), Fin 2), (1, Fin (- 10000000000000000), Fin 1)]
       = Some [(1, Fin (- 10000000000000000), Fin 1), (1, Fin (- 10000000000000000), Fin 2)]
   \<and> reported_positions (fst (run log_far_centre))
       = [(Fin (- 10000000000000000), Fin 1), (Fin (- 10000000000000000), Fin 2)]"
  by (simp add: lines_far_centre List.map_filter_simps block_of_line_def groups_eval
      block_of_def int_py_def int_of_digits_def digit_val_def floats_eval sorted_py_def
      fsub_eval run_far_centre del: fsub.simps)

text \<open>
  C5, amended: sorting the blocks by \<open>(block_number, x, y)\<close> and subtracting the wafer
  centre gives a list that is sorted already, and sorting it again is the identity, as long
  as the subtraction yields no NaN and maps no two different x coordinates of blocks of one
  number to the same relative x.
\<close>

theorem second_sort_identity:
  assumes "sorted_py bs = Some sb"
    and "relative_drift_pos_data [c0, c1] sb = Inr rel"
    and "\<not> list_ex has_nan rel"
    and "\<forall>a\<in>set bs. \<forall>b\<in>set bs.
           fst a = fst b \<and> flt (fst (snd a)) (fst (snd b)) \<longrightarrow>
           fsub (fst (snd a)) c0 \<noteq> fsub (fst (snd b)) c0"
  shows "rel = map (\<lambda>(n, x, y). (n, fsub x c0, fsub y c1)) sb \<and> sorted_py rel = Some rel"
proof -
  let ?f = "\<lambda>(n, x, y). (n, fsub x c0, fsub y c1)"
  let ?le = "\<lambda>a b. \<not> key_lt b a"
  have nn: "\<forall>b\<in>set bs. \<not> has_nan b" and sb: "sb = foldr insort_py bs []"
    using assms(1) by (auto simp: sorted_py_def list_ex_iff split: if_splits)
  have set_sb: "set sb = set bs" unfolding sb by (induction bs) auto
  have sorted: "sorted_wrt ?le sb" unfolding sb using nn by (rule sorted_foldr_insort)
  have rel: "rel = map ?f sb" using assms(2) relative_is_map by simp
  have rn: "\<forall>b\<in>set sb. \<not> has_nan (?f b)"
    using assms(3) unfolding rel by (simp add: list_ex_iff)
  have step: "\<not> key_lt (?f b) (?f a)"
    if a: "a \<in> set sb" and b: "b \<in> set sb" and le: "\<not> key_lt b a" for a b
  proof -
    obtain n1 x1 y1 where A: "a = (n1, x1, y1)" by (cases a)
    obtain n2 x2 y2 where B: "b = (n2, x2, y2)" by (cases b)
    have na: "x1 \<noteq> NaN" "y1 \<noteq> NaN" "x2 \<noteq> NaN" "y2 \<noteq> NaN"
      using nn a b set_sb A B by auto
    have nr: "fsub x1 c0 \<noteq> NaN" "fsub y1 c1 \<noteq> NaN" "fsub x2 c0 \<noteq> NaN" "fsub y2 c1 \<noteq> NaN"
      using rn a b A B by auto
    have ba: "\<not> (n2 < n1 \<or> n2 = n1 \<and> (flt x2 x1 \<or> x2 = x1 \<and> flt y2 y1))"
      using le A B key_lt_iff [of n2 x2 y2 n1 x1 y1] na by simp
    have "\<not> (n2 < n1 \<or> n2 = n1 \<and> (flt (fsub x2 c0) (fsub x1 c0)
              \<or> fsub x2 c0 = fsub x1 c0 \<and> flt (fsub y2 c1) (fsub y1 c1)))"
    proof
      assume h: "n2 < n1 \<or> n2 = n1 \<and> (flt (fsub x2 c0) (fsub x1 c0)
              \<or> fsub x2 c0 = fsub x1 c0 \<and> flt (fsub y2 c1) (fsub y1 c1))"
      then have eq: "n2 = n1" and h': "flt (fsub x2 c0) (fsub x1 c0)
              \<or> fsub x2 c0 = fsub x1 c0 \<and> flt (fsub y2 c1) (fsub y1 c1)"
        using ba by auto
      have x: "\<not> flt x2 x1" using ba eq by simp
      have mx: "\<not> flt (fsub x2 c0) (fsub x1 c0)"
        using fsub_mono [OF x na(1) na(3) nr(1) nr(3)] .
      then have same: "fsub x2 c0 = fsub x1 c0" and y: "flt (fsub y2 c1) (fsub y1 c1)"
        using h' by auto
      have "\<not> flt x1 x2"
      proof
        assume "flt x1 x2"
        then have "fsub x1 c0 \<noteq> fsub x2 c0"
          using assms(4) a b set_sb A B eq by force
        then show False using same by simp
      qed
      then have "x1 = x2" using x na flt_total by blast
      then have "\<not> flt y2 y1" using ba eq by simp
      from fsub_mono [OF this na(2) na(4) nr(2) nr(4)] show False using y by simp
    qed
    then show ?thesis
      using A B key_lt_iff [of n2 "fsub x2 c0" "fsub y2 c1" n1 "fsub x1 c0" "fsub y1 c1"] nr
      by simp
  qed
  have "sorted_wrt (\<lambda>a b. \<not> key_lt (?f b) (?f a)) sb"
    using sorted step by (rule_tac sorted_wrt_mono_rel [where P = ?le]) auto
  then have "sorted_wrt ?le (map ?f sb)" by (simp add: sorted_wrt_map)
  then have "foldr insort_py rel [] = rel" unfolding rel by (rule foldr_insort_sorted)
  then have "sorted_py rel = Some rel" using assms(3) by (simp add: sorted_py_def)
  then show ?thesis using rel by simp
qed

theorem second_sort_identity_witness:
  "sorted_py [(1, Fin 9, Fin 5), (1, Fin 7, Fin 8)] = Some [(1, Fin 7, Fin 8), (1, Fin 9, Fin 5)]
   \<and> relative_drift_pos_data [Fin 5, Fin 6] [(1, Fin 7, Fin 8), (1, Fin 9, Fin 5)]
       = Inr [(1, Fin 2, Fin 2), (1, Fin 4, Fin (- 1))]
   \<and> \<not> list_ex has_nan [(1, Fin 2, Fin 2), (1, Fin 4, Fin (- 1))]
   \<and> flt (Fin 7) (Fin 9) \<and> fsub (Fin 7) (Fin 5) = Fin 2 \<and> fsub (Fin 9) (Fin 5) = Fin 4
   \<and> sorted_py [(1, Fin 2, Fin 2), (1, Fin 4, Fin (- 1))]
       = Some [(1, Fin 2, Fin 2), (1, Fin 4, Fin (- 1))]"
proof -
  have a: "sorted_py [(1, Fin 9, Fin 5), (1, Fin 7, Fin 8)] = Some [(1, Fin 7, Fin 8), (1, Fin 9, Fin 5)]"
    by (simp add: sorted_py_def)
  have b: "relative_drift_pos_data [Fin 5, Fin 6] [(1, Fin 7, Fin 8), (1, Fin 9, Fin 5)]
             = Inr [(1, Fin 2, Fin 2), (1, Fin 4, Fin (- 1))]"
    by (simp add: fsub_eval del: fsub.simps)
  have c: "\<not> list_ex has_nan [(1, Fin 2, Fin 2), (1, Fin 4, Fin (- 1))]"
    by simp
  have d: "\<forall>a\<in>set [(1 :: int, Fin 9, Fin 5), (1, Fin 7, Fin 8)].
           \<forall>b\<in>set [(1 :: int, Fin 9, Fin 5), (1, Fin 7, Fin 8)].
           fst a = fst b \<and> flt (fst (snd a)) (fst (snd b)) \<longrightarrow>
           fsub (fst (snd a)) (Fin 5) \<noteq> fsub (fst (snd b)) (Fin 5)"
    by (simp add: fsub_eval del: fsub.simps)
  from second_sort_identity [OF a b c d] a b show ?thesis
    by (simp add: fsub_eval del: fsub.simps)
qed

subsection \<open>The drift rates of a log\<close>













end
